theory Spec2Isabelle
  imports Complex_Main "HOL-Library.Log_Nat"
begin

section \<open>Numbers\<close>

text \<open>
  Every amount, price, stock and quantity of the program is a JavaScript Number, a
  binary64 floating-point value: a finite value, an infinity or NaN. A finite value is
  modelled by the rational it denotes (the two zeros are one value, which no comparison
  or sum of the program tells apart). \<open>round64\<close> rounds a rational to the nearest
  binary64 value, ties to an even significand, with the subnormal range and the overflow
  to an infinity; each arithmetic operation is the exact operation followed by
  \<open>round64\<close>. A decimal literal or a parsed decimal string is \<open>round64\<close> of its
  rational. The type has more values than there are Numbers (\<open>Fin q\<close> for a rational
  \<open>q\<close> that is no binary64 value); a statement about every \<open>number\<close> holds for them
  as well.
\<close>

datatype number = Fin rat | PosInf | NegInf | NaN

definition pow2 :: "int \<Rightarrow> rat" where
  "pow2 e = (if 0 \<le> e then 2 ^ nat e else 1 / 2 ^ nat (- e))"

text \<open>The binary exponent of a positive rational: \<open>pow2 (ilog2 q) \<le> q < pow2 (ilog2 q + 1)\<close>.\<close>

definition ilog2 :: "rat \<Rightarrow> int" where
  "ilog2 q =
     (if 1 \<le> q then bitlen \<lfloor>q\<rfloor> - 1
      else (let k = bitlen \<lfloor>1 / q\<rfloor> - 1 in if q * 2 ^ nat k = 1 then - k else - k - 1))"

definition round_half_even :: "rat \<Rightarrow> int" where
  "round_half_even x =
     (let f = \<lfloor>x\<rfloor>; r = x - of_int f in
      if r < 1 / 2 then f else if 1 / 2 < r then f + 1 else if even f then f else f + 1)"

definition round64 :: "rat \<Rightarrow> number" where
  "round64 q =
     (if q = 0 then Fin 0
      else (let e = max (ilog2 \<bar>q\<bar>) (- 1022); u = pow2 (e - 52);
                r = of_int (round_half_even (q / u)) * u
            in if pow2 1024 \<le> \<bar>r\<bar> then (if 0 < q then PosInf else NegInf) else Fin r))"

fun num_neg :: "number \<Rightarrow> number" where
  "num_neg (Fin a) = Fin (- a)"
| "num_neg PosInf = NegInf"
| "num_neg NegInf = PosInf"
| "num_neg NaN = NaN"

fun num_add :: "number \<Rightarrow> number \<Rightarrow> number" where
  "num_add (Fin a) (Fin b) = round64 (a + b)"
| "num_add NaN y = NaN"
| "num_add x NaN = NaN"
| "num_add PosInf NegInf = NaN"
| "num_add NegInf PosInf = NaN"
| "num_add PosInf y = PosInf"
| "num_add x PosInf = PosInf"
| "num_add NegInf y = NegInf"
| "num_add x NegInf = NegInf"

definition num_sub :: "number \<Rightarrow> number \<Rightarrow> number" where
  "num_sub x y = num_add x (num_neg y)"

fun num_mul :: "number \<Rightarrow> number \<Rightarrow> number" where
  "num_mul (Fin a) (Fin b) = round64 (a * b)"
| "num_mul NaN y = NaN"
| "num_mul x NaN = NaN"
| "num_mul (Fin a) PosInf = (if a = 0 then NaN else if 0 < a then PosInf else NegInf)"
| "num_mul (Fin a) NegInf = (if a = 0 then NaN else if 0 < a then NegInf else PosInf)"
| "num_mul PosInf (Fin b) = (if b = 0 then NaN else if 0 < b then PosInf else NegInf)"
| "num_mul NegInf (Fin b) = (if b = 0 then NaN else if 0 < b then NegInf else PosInf)"
| "num_mul PosInf PosInf = PosInf"
| "num_mul PosInf NegInf = NegInf"
| "num_mul NegInf PosInf = NegInf"
| "num_mul NegInf NegInf = PosInf"

text \<open>The comparisons \<open>>=\<close>, \<open><\<close> and \<open>===\<close>; each is false when an operand is NaN.\<close>

fun num_ge :: "number \<Rightarrow> number \<Rightarrow> bool" where
  "num_ge (Fin a) (Fin b) = (b \<le> a)"
| "num_ge NaN y = False"
| "num_ge x NaN = False"
| "num_ge PosInf y = True"
| "num_ge x NegInf = True"
| "num_ge x PosInf = False"
| "num_ge NegInf y = False"

fun num_lt :: "number \<Rightarrow> number \<Rightarrow> bool" where
  "num_lt (Fin a) (Fin b) = (a < b)"
| "num_lt NaN y = False"
| "num_lt x NaN = False"
| "num_lt PosInf y = False"
| "num_lt x NegInf = False"
| "num_lt x PosInf = True"
| "num_lt NegInf y = True"

fun num_eq :: "number \<Rightarrow> number \<Rightarrow> bool" where
  "num_eq (Fin a) (Fin b) = (a = b)"
| "num_eq PosInf PosInf = True"
| "num_eq NegInf NegInf = True"
| "num_eq x y = False"

definition nonneg :: "number \<Rightarrow> bool" where
  "nonneg x = num_ge x (Fin 0)"

text \<open>The rational that a finite number denotes.\<close>

fun rat_of :: "number \<Rightarrow> rat" where
  "rat_of (Fin a) = a"
| "rat_of x = 0"

section \<open>Wallet ledger (models/wallet.model.js)\<close>

text \<open>
  Documents are identified by their ObjectId, modelled as a natural number.
  The object-document mapper is not part of the repository. Two facts about its
  \<open>save()\<close> are fixed in the model: a refused \<open>save()\<close> throws and writes nothing, and
  \<open>save()\<close> refuses a document that holds NaN in a Number path (the assignment was a cast
  error, which \<open>save()\<close> reports).
  What else \<open>save()\<close> accepts (validators, storage-level indexes) is a parameter, the
  record \<open>storage\<close> below; \<open>schema\<close> is the instance that the enum and required
  declarations of the repository's schemas give, and \<open>indexed\<close> adds the unique index
  declared on the reference of a transaction. A request runs alone from its first read
  to its last write: requests do not interleave in the model.
\<close>

type_synonym object_id = nat

datatype transaction_type = Deposit | Withdrawal | Payment | Refund | Commission | Fee

datatype transaction_status = TxPending | TxCompleted | TxFailed | TxCancelled

datatype wallet_type = BuyerWallet | SellerWallet | DeliveryWallet | AdminWallet

text \<open>The fields of \<open>transactionSchema\<close> that the routes read or branch on; the
  free-text description, the payment details and the creation time are left out.\<close>

record transaction =
  tx_type :: transaction_type
  amount :: number
  tx_status :: transaction_status
  reference :: string
  relatedOrder :: "object_id option"
  relatedUser :: "object_id option"
  tx_paymentMethod :: string

record wallet =
  owner :: object_id
  walletType :: wallet_type
  balance :: number
  transactions :: "transaction list"

text \<open>\<open>new Wallet({owner, walletType, balance: 0, currency: 'XOF'})\<close> of the register and
  add-role routes.\<close>

definition new_wallet :: "object_id \<Rightarrow> wallet_type \<Rightarrow> wallet" where
  "new_wallet uid ty = \<lparr>owner = uid, walletType = ty, balance = Fin 0, transactions = []\<rparr>"

text \<open>The two type lists of \<open>addTransaction\<close>.\<close>

definition credit_types :: "transaction_type list" where
  "credit_types = [Deposit, Refund, Commission]"

definition debit_types :: "transaction_type list" where
  "debit_types = [Withdrawal, Payment, Fee]"

text \<open>\<open>walletSchema.methods.addTransaction\<close>, on the in-memory document.\<close>

definition addTransaction :: "wallet \<Rightarrow> transaction \<Rightarrow> wallet" where
  "addTransaction w t =
     (let w1 = w\<lparr>transactions := transactions w @ [t]\<rparr> in
      if tx_type t \<in> set credit_types then w1\<lparr>balance := num_add (balance w1) (amount t)\<rparr>
      else if tx_type t \<in> set debit_types then w1\<lparr>balance := num_sub (balance w1) (amount t)\<rparr>
      else w1)"

text \<open>\<open>walletSchema.methods.hasSufficientBalance\<close>.\<close>

definition hasSufficientBalance :: "wallet \<Rightarrow> number \<Rightarrow> bool" where
  "hasSufficientBalance w a = num_ge (balance w) a"

text \<open>
  The two sides of the ledger, over the completed transactions of the given types: the
  sum of their amounts as a rational, and the sum as JavaScript adds the amounts up from
  0 in the order of the log.
\<close>

definition completed_of :: "transaction_type list \<Rightarrow> transaction list \<Rightarrow> transaction list" where
  "completed_of tys ts = filter (\<lambda>t. tx_status t = TxCompleted \<and> tx_type t \<in> set tys) ts"

definition exact_total :: "transaction_type list \<Rightarrow> transaction list \<Rightarrow> rat" where
  "exact_total tys ts = sum_list (map (rat_of \<circ> amount) (completed_of tys ts))"

definition double_total :: "transaction_type list \<Rightarrow> transaction list \<Rightarrow> number" where
  "double_total tys ts = foldl num_add (Fin 0) (map amount (completed_of tys ts))"

section \<open>Users, products and orders (models)\<close>

text \<open>A user, with the fields the routes read or write: the roles, for a delivery agent
  \<open>deliveryInfo.isAvailable\<close> (\<open>None\<close> when the user has no \<open>deliveryInfo\<close>), and the
  copy of the subscription that the subscription routes keep in \<open>sellerInfo\<close>.\<close>

record seller_info =
  subscriptionStatus :: string
  subscriptionType :: string
  subscriptionStartDate :: "int option"
  subscriptionEndDate :: "int option"

record user =
  user_id :: object_id
  roles :: "string list"
  deliveryInfo_isAvailable :: "bool option"
  sellerInfo :: seller_info

text \<open>The defaults of \<open>sellerInfo\<close> in \<open>userSchema\<close>.\<close>

definition default_sellerInfo :: seller_info where
  "default_sellerInfo =
     \<lparr>subscriptionStatus = ''trial'', subscriptionType = ''none'',
      subscriptionStartDate = None, subscriptionEndDate = None\<rparr>"

record product =
  product_seller :: object_id
  product_price :: number
  product_stock :: number
  isAvailable :: bool

record order_item =
  item_product :: object_id
  quantity :: number
  item_price :: number
  subtotal :: number

datatype order_status = Pending | Processing | Shipped | Delivered | Cancelled | Refunded

datatype payment_status = PayPending | Paid | Released | PayRefunded | PayFailed

datatype delivery_status =
  DeliveryPending | Assigned | PickedUp | InTransit | DeliveryDelivered | DeliveryFailed

text \<open>An order, without its addresses, dates and delivery proof.\<close>

record order =
  buyer :: object_id
  items :: "order_item list"
  totalAmount :: number
  platformFee :: number
  deliveryFee :: number
  adminFee :: number
  status :: order_status
  paymentStatus :: payment_status
  paymentMethod :: string
  deliveryAgent :: "object_id option"
  deliveryStatus :: delivery_status

text \<open>\<open>productSchema.methods.isInStock\<close> and \<open>reduceStock\<close>; \<open>None\<close> is the thrown
  \<open>Error('Insufficient stock')\<close>.\<close>

definition isInStock :: "product \<Rightarrow> number \<Rightarrow> bool" where
  "isInStock p q = (num_ge (product_stock p) q \<and> isAvailable p)"

definition reduceStock :: "product \<Rightarrow> number \<Rightarrow> product option" where
  "reduceStock p q =
     (if \<not> isInStock p q then None
      else (let p1 = p\<lparr>product_stock := num_sub (product_stock p) q\<rparr> in
            Some (if num_eq (product_stock p1) (Fin 0) then p1\<lparr>isAvailable := False\<rparr>
                  else p1)))"

text \<open>\<open>orderSchema.pre('save')\<close>; the flag is \<open>this.isModified('items')\<close>, which holds
  for a new document built with items.\<close>

definition pre_save :: "bool \<Rightarrow> order \<Rightarrow> order" where
  "pre_save items_modified ord =
     (if items_modified
      then ord\<lparr>totalAmount :=
                 num_add (foldl (\<lambda>acc item. num_add acc (subtotal item)) (Fin 0) (items ord))
                         (platformFee ord)\<rparr>
      else ord)"

text \<open>\<open>assignDeliveryAgent\<close>, \<open>updateStatus\<close> and \<open>updateDeliveryStatus\<close> on the
  in-memory document; each is followed by \<open>save()\<close> in the source.\<close>

definition assignDeliveryAgent :: "order \<Rightarrow> object_id \<Rightarrow> order" where
  "assignDeliveryAgent ord agentId =
     ord\<lparr>deliveryAgent := Some agentId, deliveryStatus := Assigned\<rparr>"

definition updateStatus :: "order \<Rightarrow> order_status \<Rightarrow> order" where
  "updateStatus ord st =
     (let o1 = ord\<lparr>status := st\<rparr> in
      if st = Delivered then o1\<lparr>paymentStatus := Released\<rparr>
      else if st = Cancelled then o1\<lparr>paymentStatus := PayRefunded\<rparr>
      else o1)"

definition updateDeliveryStatus :: "order \<Rightarrow> delivery_status \<Rightarrow> order" where
  "updateDeliveryStatus ord st =
     (let o1 = ord\<lparr>deliveryStatus := st\<rparr> in
      if st = DeliveryDelivered then o1\<lparr>status := Delivered, paymentStatus := Released\<rparr>
      else o1)"

section \<open>Dates\<close>

text \<open>
  A JavaScript Date object holds a time value, the milliseconds since the epoch. The
  abstract operations below are those of the language standard (Day, TimeWithinDay,
  DayFromYear, YearFromTime, MonthFromTime, DateFromTime, MakeDay, MakeDate), with the
  local time zone taken to be UTC. \<open>YearFromDay\<close> takes the year of the estimate
  \<open>1970 + 400 * day div 146097\<close>, or the year before or after it when the day lies
  outside that year.
\<close>

definition msPerDay :: int where
  "msPerDay = 86400000"

definition Day :: "int \<Rightarrow> int" where
  "Day t = t div msPerDay"

definition TimeWithinDay :: "int \<Rightarrow> int" where
  "TimeWithinDay t = t mod msPerDay"

definition DayFromYear :: "int \<Rightarrow> int" where
  "DayFromYear y =
     365 * (y - 1970) + (y - 1969) div 4 - (y - 1901) div 100 + (y - 1601) div 400"

definition DaysInYear :: "int \<Rightarrow> int" where
  "DaysInYear y =
     (if y mod 4 \<noteq> 0 then 365 else if y mod 100 \<noteq> 0 then 366
      else if y mod 400 \<noteq> 0 then 365 else 366)"

definition YearFromDay :: "int \<Rightarrow> int" where
  "YearFromDay dn =
     (let y = 1970 + (dn * 400) div 146097 in
      if dn < DayFromYear y then y - 1
      else if DayFromYear (y + 1) \<le> dn then y + 1
      else y)"

definition YearFromTime :: "int \<Rightarrow> int" where
  "YearFromTime t = YearFromDay (Day t)"

definition DayWithinYear :: "int \<Rightarrow> int" where
  "DayWithinYear t = Day t - DayFromYear (YearFromTime t)"

definition InLeapYear :: "int \<Rightarrow> int" where
  "InLeapYear t = (if DaysInYear (YearFromTime t) = 366 then 1 else 0)"

text \<open>The day of the year on which month \<open>m\<close> (0 to 11) starts.\<close>

definition monthStart :: "int \<Rightarrow> int \<Rightarrow> int" where
  "monthStart leap m =
     (if m = 0 then 0 else if m = 1 then 31
      else [59, 90, 120, 151, 181, 212, 243, 273, 304, 334] ! nat (m - 2) + leap)"

definition MonthFromTime :: "int \<Rightarrow> int" where
  "MonthFromTime t =
     (let dy = DayWithinYear t; leap = InLeapYear t in
      int (length (filter (\<lambda>m. monthStart leap m \<le> dy) [1..11])))"

definition DateFromTime :: "int \<Rightarrow> int" where
  "DateFromTime t = DayWithinYear t - monthStart (InLeapYear t) (MonthFromTime t) + 1"

definition MakeDay :: "int \<Rightarrow> int \<Rightarrow> int \<Rightarrow> int" where
  "MakeDay year month dt =
     (let ym = year + month div 12; mn = month mod 12 in
      DayFromYear ym + monthStart (if DaysInYear ym = 366 then 1 else 0) mn + dt - 1)"

definition MakeDate :: "int \<Rightarrow> int \<Rightarrow> int" where
  "MakeDate dn time = dn * msPerDay + time"

text \<open>The time value that \<open>setDate\<close>, \<open>setMonth\<close> and \<open>setFullYear\<close> compute from the
  time value of the object.\<close>

definition setDate_value :: "int \<Rightarrow> int \<Rightarrow> int" where
  "setDate_value t dt =
     MakeDate (MakeDay (YearFromTime t) (MonthFromTime t) dt) (TimeWithinDay t)"

definition setMonth_value :: "int \<Rightarrow> int \<Rightarrow> int" where
  "setMonth_value t m =
     MakeDate (MakeDay (YearFromTime t) m (DateFromTime t)) (TimeWithinDay t)"

definition setFullYear_value :: "int \<Rightarrow> int \<Rightarrow> int" where
  "setFullYear_value t y =
     MakeDate (MakeDay y (MonthFromTime t) (DateFromTime t)) (TimeWithinDay t)"

text \<open>
  Date objects are mutable and shared by reference, so the methods that mutate one work
  on an explicit store of Date objects: a reference is a position in the list of time
  values. \<open>new Date(v)\<close> allocates; the setters overwrite the object's time value and
  return it, as in JavaScript.
\<close>

type_synonym date_heap = "int list"

definition new_Date :: "date_heap \<Rightarrow> int \<Rightarrow> nat \<times> date_heap" where
  "new_Date h v = (length h, h @ [v])"

definition getDate :: "date_heap \<Rightarrow> nat \<Rightarrow> int" where
  "getDate h r = DateFromTime (h ! r)"

definition getMonth :: "date_heap \<Rightarrow> nat \<Rightarrow> int" where
  "getMonth h r = MonthFromTime (h ! r)"

definition getFullYear :: "date_heap \<Rightarrow> nat \<Rightarrow> int" where
  "getFullYear h r = YearFromTime (h ! r)"

definition setDate :: "date_heap \<Rightarrow> nat \<Rightarrow> int \<Rightarrow> int \<times> date_heap" where
  "setDate h r dt = (let v = setDate_value (h ! r) dt in (v, h[r := v]))"

definition setMonth :: "date_heap \<Rightarrow> nat \<Rightarrow> int \<Rightarrow> int \<times> date_heap" where
  "setMonth h r m = (let v = setMonth_value (h ! r) m in (v, h[r := v]))"

definition setFullYear :: "date_heap \<Rightarrow> nat \<Rightarrow> int \<Rightarrow> int \<times> date_heap" where
  "setFullYear h r y = (let v = setFullYear_value (h ! r) y in (v, h[r := v]))"

section \<open>Subscriptions (models/subscription.model.js)\<close>

datatype plan = FreeTrial | Weekly | Monthly | Yearly

datatype subscription_status = Active | Expired | SubCancelled | SubPending

text \<open>
  A subscription document. The type parameter is the representation of its dates: a time
  value (\<open>int\<close>) in the stored document, a reference to a Date object (\<open>nat\<close>) in the
  document that a request holds in memory. \<open>endDate\<close> is unset in a document that has
  just been constructed. The entries of the renewal history keep their dates by value:
  they refer to the Date objects of the previous cycle, which nothing mutates.
\<close>

record 'd payment_details =
  transactionId :: "string option"
  paymentDate :: "'d option"
  provider :: "string option"

record history_entry =
  h_plan :: plan
  h_startDate :: int
  h_endDate :: "int option"
  h_price :: number
  h_paymentMethod :: string
  h_transactionId :: "string option"
  h_status :: subscription_status

record 'd subscription =
  seller :: object_id
  plan :: plan
  sub_status :: subscription_status
  startDate :: 'd
  endDate :: "'d option"
  autoRenew :: bool
  price :: number
  sub_paymentMethod :: string
  paymentDetails :: "'d payment_details option"
  renewalHistory :: "history_entry list"

text \<open>The names of the plans, as the routes copy them into \<open>sellerInfo\<close>.\<close>

definition plan_name :: "plan \<Rightarrow> string" where
  "plan_name pl =
     (case pl of FreeTrial \<Rightarrow> ''free_trial'' | Weekly \<Rightarrow> ''weekly''
      | Monthly \<Rightarrow> ''monthly'' | Yearly \<Rightarrow> ''yearly'')"

text \<open>The argument of \<open>renew\<close> and \<open>changePlan\<close>; an absent \<open>paymentMethod\<close> is the empty
  string, which is falsy as \<open>undefined\<close> is.\<close>

record renew_payment =
  rp_paymentMethod :: string
  rp_transactionId :: "string option"
  rp_provider :: "string option"

text \<open>Reading a stored subscription into memory gives each of its dates a Date object of
  its own; \<open>save()\<close> writes the time values that the objects hold when it runs.\<close>

definition load_subscription :: "int subscription \<Rightarrow> date_heap \<times> nat subscription" where
  "load_subscription s =
     (let (st, h0) = new_Date [] (startDate s);
          (en, h1) = (case endDate s of
                        None \<Rightarrow> (None, h0)
                      | Some v \<Rightarrow> (let (r, h) = new_Date h0 v in (Some r, h)));
          (pd, h2) = (case paymentDetails s of
                        None \<Rightarrow> (None, h1)
                      | Some p \<Rightarrow>
                          (case paymentDate p of
                             None \<Rightarrow>
                               (Some \<lparr>transactionId = transactionId p, paymentDate = None,
                                      provider = provider p\<rparr>, h1)
                           | Some v \<Rightarrow>
                               (let (r, h) = new_Date h1 v in
                                (Some \<lparr>transactionId = transactionId p, paymentDate = Some r,
                                       provider = provider p\<rparr>, h))))
      in (h2, \<lparr>seller = seller s, plan = plan s, sub_status = sub_status s, startDate = st,
               endDate = en, autoRenew = autoRenew s, price = price s,
               sub_paymentMethod = sub_paymentMethod s, paymentDetails = pd,
               renewalHistory = renewalHistory s\<rparr>))"

definition stored_subscription :: "date_heap \<times> nat subscription \<Rightarrow> int subscription" where
  "stored_subscription hs =
     (case hs of (h, s) \<Rightarrow>
       \<lparr>seller = seller s, plan = plan s, sub_status = sub_status s,
        startDate = h ! startDate s, endDate = map_option (\<lambda>r. h ! r) (endDate s),
        autoRenew = autoRenew s, price = price s, sub_paymentMethod = sub_paymentMethod s,
        paymentDetails =
          map_option (\<lambda>p. \<lparr>transactionId = transactionId p,
                            paymentDate = map_option (\<lambda>r. h ! r) (paymentDate p),
                            provider = provider p\<rparr>) (paymentDetails s),
        renewalHistory = renewalHistory s\<rparr>)"

text \<open>The entry that \<open>renew\<close> and \<open>changePlan\<close> push on \<open>renewalHistory\<close>.\<close>

definition current_cycle :: "date_heap \<Rightarrow> nat subscription \<Rightarrow> history_entry" where
  "current_cycle h s =
     \<lparr>h_plan = plan s, h_startDate = h ! startDate s,
      h_endDate = map_option (\<lambda>r. h ! r) (endDate s), h_price = price s,
      h_paymentMethod = sub_paymentMethod s,
      h_transactionId = (case paymentDetails s of None \<Rightarrow> None | Some p \<Rightarrow> transactionId p),
      h_status = sub_status s\<rparr>"

text \<open>The block "Update payment details" of \<open>renew\<close> and \<open>changePlan\<close>.\<close>

definition update_payment ::
  "renew_payment option \<Rightarrow> nat \<Rightarrow> nat subscription \<Rightarrow> nat subscription" where
  "update_payment pd currentDate s =
     (case pd of
        None \<Rightarrow> s
      | Some p \<Rightarrow>
          s\<lparr>sub_paymentMethod :=
               (if rp_paymentMethod p = [] then sub_paymentMethod s else rp_paymentMethod p),
            paymentDetails :=
               Some \<lparr>transactionId = rp_transactionId p, paymentDate = Some currentDate,
                     provider = rp_provider p\<rparr>\<rparr>)"

text \<open>
  \<open>subscriptionSchema.methods.renew\<close> on the in-memory document, up to its \<open>save()\<close>.
  \<open>now\<close> is the clock read by \<open>new Date()\<close>. The object \<open>currentDate\<close> is assigned to
  \<open>this.startDate\<close> (and to \<open>paymentDetails.paymentDate\<close>) and afterwards mutated by
  \<open>setDate\<close>, \<open>setMonth\<close> or \<open>setFullYear\<close>, whose result initialises the new object
  assigned to \<open>this.endDate\<close>.
\<close>

definition renew_doc ::
  "int \<Rightarrow> renew_payment option \<Rightarrow> date_heap \<times> nat subscription
     \<Rightarrow> date_heap \<times> nat subscription" where
  "renew_doc now pd hs =
     (case hs of (h, s) \<Rightarrow>
       (let s1 = s\<lparr>renewalHistory := renewalHistory s @ [current_cycle h s]\<rparr>;
            (currentDate, h1) = new_Date h now;
            s2 = s1\<lparr>startDate := currentDate, sub_status := Active\<rparr>;
            s3 = update_payment pd currentDate s2
        in case plan s3 of
             Weekly \<Rightarrow>
               (let (v, h2) = setDate h1 currentDate (getDate h1 currentDate + 7);
                    (e, h3) = new_Date h2 v
                in (h3, s3\<lparr>endDate := Some e\<rparr>))
           | Monthly \<Rightarrow>
               (let (v, h2) = setMonth h1 currentDate (getMonth h1 currentDate + 1);
                    (e, h3) = new_Date h2 v
                in (h3, s3\<lparr>endDate := Some e\<rparr>))
           | Yearly \<Rightarrow>
               (let (v, h2) = setFullYear h1 currentDate (getFullYear h1 currentDate + 1);
                    (e, h3) = new_Date h2 v
                in (h3, s3\<lparr>endDate := Some e\<rparr>))
           | FreeTrial \<Rightarrow> (h1, s3)))"

text \<open>\<open>renew\<close> from the stored document to the document that its \<open>save()\<close> writes.\<close>

definition renew :: "int \<Rightarrow> renew_payment option \<Rightarrow> int subscription \<Rightarrow> int subscription" where
  "renew now pd s = stored_subscription (renew_doc now pd (load_subscription s))"

text \<open>\<open>changePlan\<close>, likewise; it mutates no Date object after sharing it.\<close>

definition changePlan_doc ::
  "int \<Rightarrow> plan \<Rightarrow> renew_payment option \<Rightarrow> date_heap \<times> nat subscription
     \<Rightarrow> date_heap \<times> nat subscription" where
  "changePlan_doc now newPlan pd hs =
     (case hs of (h, s) \<Rightarrow>
       (let s0 = s\<lparr>plan := newPlan\<rparr>;
            s1 = s0\<lparr>renewalHistory := renewalHistory s0 @ [current_cycle h s0]\<rparr>;
            (currentDate, h1) = new_Date h now;
            s2 = s1\<lparr>startDate := currentDate, sub_status := Active\<rparr>
        in (h1, update_payment pd currentDate s2)))"

definition changePlan ::
  "int \<Rightarrow> plan \<Rightarrow> renew_payment option \<Rightarrow> int subscription \<Rightarrow> int subscription" where
  "changePlan now newPlan pd s =
     stored_subscription (changePlan_doc now newPlan pd (load_subscription s))"

text \<open>\<open>subscriptionSchema.pre('save')\<close>; the flag is \<open>this.isNew || this.isModified('plan')\<close>.
  Its \<open>currentDate\<close> is a local object that is not stored, so the hook is given on time
  values.\<close>

definition subscription_pre_save :: "int \<Rightarrow> bool \<Rightarrow> int subscription \<Rightarrow> int subscription" where
  "subscription_pre_save now recompute s =
     (if recompute then
        (case plan s of
           FreeTrial \<Rightarrow>
             s\<lparr>endDate := Some (setMonth_value now (MonthFromTime now + 2)), price := Fin 0\<rparr>
         | Weekly \<Rightarrow>
             s\<lparr>endDate := Some (setDate_value now (DateFromTime now + 7)), price := Fin 2000\<rparr>
         | Monthly \<Rightarrow>
             s\<lparr>endDate := Some (setMonth_value now (MonthFromTime now + 1)), price := Fin 7500\<rparr>
         | Yearly \<Rightarrow>
             s\<lparr>endDate := Some (setFullYear_value now (YearFromTime now + 1)), price := Fin 75000\<rparr>)
      else s)"

section \<open>The store and the middleware\<close>

text \<open>
  The collections. Wallets, users and subscriptions are lists in natural order, since
  \<open>findOne\<close> returns the first match and nothing makes (owner, walletType) unique; such a
  document is identified by its position. Products and orders are looked up by \<open>_id\<close>
  only, so they are maps. A route returns its response and the store it leaves behind,
  also when it fails halfway.
\<close>

record db =
  users :: "user list"
  wallets :: "wallet list"
  products :: "object_id \<rightharpoonup> product"
  orders :: "object_id \<rightharpoonup> order"
  subscriptions :: "int subscription list"

text \<open>What the validators and the storage accept at a \<open>save()\<close>, given the store as it
  is, the place of the document (\<open>None\<close> for a new subscription) and the document.\<close>

record storage =
  accepts_wallet :: "db \<Rightarrow> nat \<Rightarrow> wallet \<Rightarrow> bool"
  accepts_order :: "db \<Rightarrow> object_id \<Rightarrow> order \<Rightarrow> bool"
  accepts_product :: "db \<Rightarrow> object_id \<Rightarrow> product \<Rightarrow> bool"
  accepts_subscription :: "db \<Rightarrow> nat option \<Rightarrow> int subscription \<Rightarrow> bool"
  accepts_user :: "db \<Rightarrow> nat \<Rightarrow> user \<Rightarrow> bool"

text \<open>The cast of the Number paths of a document: none of them is NaN.\<close>

definition wallet_castable :: "wallet \<Rightarrow> bool" where
  "wallet_castable w = (balance w \<noteq> NaN \<and> list_all (\<lambda>t. amount t \<noteq> NaN) (transactions w))"

definition order_castable :: "order \<Rightarrow> bool" where
  "order_castable ord =
     (totalAmount ord \<noteq> NaN \<and> platformFee ord \<noteq> NaN \<and> deliveryFee ord \<noteq> NaN
      \<and> adminFee ord \<noteq> NaN
      \<and> list_all (\<lambda>i. quantity i \<noteq> NaN \<and> item_price i \<noteq> NaN \<and> subtotal i \<noteq> NaN)
           (items ord))"

definition product_castable :: "product \<Rightarrow> bool" where
  "product_castable p = (product_price p \<noteq> NaN \<and> product_stock p \<noteq> NaN)"

text \<open>What \<open>save()\<close> accepts: the cast and the parameter.\<close>

definition wallet_save_ok :: "storage \<Rightarrow> db \<Rightarrow> nat \<Rightarrow> wallet \<Rightarrow> bool" where
  "wallet_save_ok sv d i w = (wallet_castable w \<and> accepts_wallet sv d i w)"

definition order_save_ok :: "storage \<Rightarrow> db \<Rightarrow> object_id \<Rightarrow> order \<Rightarrow> bool" where
  "order_save_ok sv d oid ord = (order_castable ord \<and> accepts_order sv d oid ord)"

definition product_save_ok :: "storage \<Rightarrow> db \<Rightarrow> object_id \<Rightarrow> product \<Rightarrow> bool" where
  "product_save_ok sv d pid p = (product_castable p \<and> accepts_product sv d pid p)"

definition subscription_save_ok ::
  "storage \<Rightarrow> db \<Rightarrow> nat option \<Rightarrow> int subscription \<Rightarrow> bool" where
  "subscription_save_ok sv d pos s = (price s \<noteq> NaN \<and> accepts_subscription sv d pos s)"

text \<open>The enums of \<open>transactionSchema.paymentMethod\<close>, of the \<open>paymentMethod\<close> of orders and
  subscriptions, of the roles and of \<open>sellerInfo\<close>; the minimum of an item's quantity
  and of a product's stock and price; the required \<open>endDate\<close> of a subscription.\<close>

definition tx_paymentMethods :: "string list" where
  "tx_paymentMethods = [''mobile_money'', ''credit_card'', ''bank_transfer'', ''internal'']"

definition order_paymentMethods :: "string list" where
  "order_paymentMethods = [''wallet'', ''mobile_money'', ''credit_card'', ''bank_transfer'']"

definition user_roles_enum :: "string list" where
  "user_roles_enum = [''buyer'', ''seller'', ''delivery'', ''admin'', ''customer_service'']"

definition subscriptionStatus_enum :: "string list" where
  "subscriptionStatus_enum = [''trial'', ''active'', ''expired'', ''cancelled'']"

definition subscriptionType_enum :: "string list" where
  "subscriptionType_enum = [''weekly'', ''monthly'', ''yearly'', ''none'']"

definition schema :: storage where
  "schema =
     \<lparr>accepts_wallet =
        (\<lambda>d i w. list_all (\<lambda>t. tx_paymentMethod t \<in> set tx_paymentMethods) (transactions w)),
      accepts_order =
        (\<lambda>d oid ord. paymentMethod ord \<in> set order_paymentMethods
           \<and> list_all (\<lambda>i. num_ge (quantity i) (Fin 1)) (items ord)),
      accepts_product = (\<lambda>d pid p. nonneg (product_stock p) \<and> nonneg (product_price p)),
      accepts_subscription =
        (\<lambda>d pos s. endDate s \<noteq> None \<and> sub_paymentMethod s \<in> set order_paymentMethods),
      accepts_user =
        (\<lambda>d k u. list_all (\<lambda>r. r \<in> set user_roles_enum) (roles u)
           \<and> subscriptionStatus (sellerInfo u) \<in> set subscriptionStatus_enum
           \<and> subscriptionType (sellerInfo u) \<in> set subscriptionType_enum)\<rparr>"

text \<open>The unique index declared on \<open>reference\<close> of \<open>transactionSchema\<close> is an index of the
  wallet collection on \<open>transactions.reference\<close>: it refuses a wallet that holds a
  reference which another wallet document holds.\<close>

definition reference_free :: "db \<Rightarrow> nat \<Rightarrow> wallet \<Rightarrow> bool" where
  "reference_free d i w =
     list_all (\<lambda>k. k = i \<or> set (map reference (transactions (wallets d ! k)))
                            \<inter> set (map reference (transactions w)) = {})
       [0 ..< length (wallets d)]"

definition indexed :: storage where
  "indexed = schema\<lparr>accepts_wallet :=
                (\<lambda>d i w. accepts_wallet schema d i w \<and> reference_free d i w)\<rparr>"

datatype response = Json | Status nat string

fun findIndex :: "('a \<Rightarrow> bool) \<Rightarrow> 'a list \<Rightarrow> nat option" where
  "findIndex P [] = None"
| "findIndex P (x # xs) = (if P x then Some 0 else map_option Suc (findIndex P xs))"

definition Wallet_findOne :: "db \<Rightarrow> object_id \<Rightarrow> wallet_type \<Rightarrow> nat option" where
  "Wallet_findOne d uid ty = findIndex (\<lambda>w. owner w = uid \<and> walletType w = ty) (wallets d)"

definition Subscription_findOne :: "db \<Rightarrow> object_id \<Rightarrow> nat option" where
  "Subscription_findOne d uid = findIndex (\<lambda>s. seller s = uid) (subscriptions d)"

text \<open>\<open>User.findById\<close>: the position of the user, and the user.\<close>

definition User_findIndex :: "db \<Rightarrow> object_id \<Rightarrow> nat option" where
  "User_findIndex d uid = findIndex (\<lambda>u. user_id u = uid) (users d)"

definition User_findById :: "db \<Rightarrow> object_id \<Rightarrow> user option" where
  "User_findById d uid = find (\<lambda>u. user_id u = uid) (users d)"

text \<open>\<open>checkRole(roles)\<close> of the middleware, on the roles of the token.\<close>

definition checkRole :: "string list \<Rightarrow> string list \<Rightarrow> bool" where
  "checkRole required user_roles = list_ex (\<lambda>role. role \<in> set user_roles) required"

definition wallet_type_of :: "string \<Rightarrow> wallet_type option" where
  "wallet_type_of s =
     (if s = ''buyer'' then Some BuyerWallet
      else if s = ''seller'' then Some SellerWallet
      else if s = ''delivery'' then Some DeliveryWallet
      else if s = ''admin'' then Some AdminWallet
      else None)"

text \<open>\<open>wallet.addTransaction(t)\<close> with its \<open>save()\<close>, for the wallet document at position
  \<open>i\<close> read as \<open>w\<close>; \<open>None\<close> is the exception of a refused \<open>save()\<close>, which leaves the
  stored wallet as it was.\<close>

definition addTransaction_save ::
  "storage \<Rightarrow> db \<Rightarrow> nat \<Rightarrow> wallet \<Rightarrow> transaction \<Rightarrow> db option" where
  "addTransaction_save sv d i w t =
     (if wallet_save_ok sv d i (addTransaction w t)
      then Some (d\<lparr>wallets := (wallets d)[i := addTransaction w t]\<rparr>)
      else None)"

text \<open>\<open>order.save()\<close>: validation, the pre-save hook, the write.\<close>

definition Order_save ::
  "storage \<Rightarrow> db \<Rightarrow> object_id \<Rightarrow> bool \<Rightarrow> order \<Rightarrow> (order \<times> db) option" where
  "Order_save sv d oid items_modified ord =
     (if order_save_ok sv d oid ord
      then (let o1 = pre_save items_modified ord in
            Some (o1, d\<lparr>orders := (orders d)(oid \<mapsto> o1)\<rparr>))
      else None)"

text \<open>\<open>subscription.save()\<close>: validation, the pre-save hook, the write, at position \<open>k\<close> or,
  for a new document, at the end of the collection. It returns the document, the store
  and the document's position.\<close>

definition Subscription_save ::
  "storage \<Rightarrow> db \<Rightarrow> int \<Rightarrow> nat option \<Rightarrow> bool \<Rightarrow> int subscription
     \<Rightarrow> (int subscription \<times> db \<times> nat) option" where
  "Subscription_save sv d now pos recompute s =
     (if subscription_save_ok sv d pos s
      then (let s1 = subscription_pre_save now recompute s in
            case pos of
              None \<Rightarrow>
                Some (s1, d\<lparr>subscriptions := subscriptions d @ [s1]\<rparr>, length (subscriptions d))
            | Some k \<Rightarrow> Some (s1, d\<lparr>subscriptions := (subscriptions d)[k := s1]\<rparr>, k))
      else None)"

text \<open>\<open>user.save()\<close> for the user document at position \<open>k\<close>.\<close>

definition User_save :: "storage \<Rightarrow> db \<Rightarrow> nat \<Rightarrow> user \<Rightarrow> db option" where
  "User_save sv d k u =
     (if accepts_user sv d k u then Some (d\<lparr>users := (users d)[k := u]\<rparr>) else None)"

section \<open>Wallet routes (routes/wallet.routes.js)\<close>

text \<open>The transaction literals of the routes. \<open>reference\<close> is the value drawn from
  \<open>crypto.randomBytes\<close>, a parameter of each route.\<close>

definition mk_tx ::
  "transaction_type \<Rightarrow> number \<Rightarrow> string \<Rightarrow> object_id option \<Rightarrow> object_id option \<Rightarrow> string
     \<Rightarrow> transaction" where
  "mk_tx ty a ref ord usr pm =
     \<lparr>tx_type = ty, amount = a, tx_status = TxCompleted, reference = ref,
      relatedOrder = ord, relatedUser = usr, tx_paymentMethod = pm\<rparr>"

text \<open>The validator \<open>isFloat({min: 0.01})\<close> admits a decimal string whose parsed value is
  at least the literal 0.01; the routes then work on the parsed value, the argument
  \<open>amt\<close> below.\<close>

definition min_amount :: number where
  "min_amount = round64 (1 / 100)"

text \<open>\<open>POST /wallet/withdraw\<close>.\<close>

definition wallet_withdraw ::
  "storage \<Rightarrow> db \<Rightarrow> object_id \<Rightarrow> number \<Rightarrow> string \<Rightarrow> string \<Rightarrow> string \<Rightarrow> response \<times> db" where
  "wallet_withdraw sv d uid amt walletTypeS pm ref =
     (if \<not> num_ge amt min_amount \<or> walletTypeS = [] \<or> pm = []
      then (Status 400 ''validation'', d)
      else (case wallet_type_of walletTypeS of
        None \<Rightarrow> (Status 400 ''Invalid wallet type'', d)
      | Some ty \<Rightarrow>
          (case Wallet_findOne d uid ty of
             None \<Rightarrow> (Status 404 ''Wallet not found'', d)
           | Some i \<Rightarrow>
               (let w = wallets d ! i in
                if \<not> hasSufficientBalance w amt then (Status 400 ''Insufficient balance'', d)
                else (case addTransaction_save sv d i w
                             (mk_tx Withdrawal amt ref None (Some uid) pm) of
                  None \<Rightarrow> (Status 500 ''Server error'', d)
                | Some d1 \<Rightarrow> (Json, d1))))))"

text \<open>\<open>POST /wallet/transfer\<close>. Both wallets are read before either is written.\<close>

definition wallet_transfer ::
  "storage \<Rightarrow> db \<Rightarrow> object_id \<Rightarrow> number \<Rightarrow> string \<Rightarrow> string \<Rightarrow> string \<Rightarrow> response \<times> db" where
  "wallet_transfer sv d uid amt fromS toS ref =
     (if \<not> num_ge amt min_amount \<or> fromS = [] \<or> toS = []
      then (Status 400 ''validation'', d)
      else (case wallet_type_of fromS of
        None \<Rightarrow> (Status 400 ''Invalid wallet type'', d)
      | Some fty \<Rightarrow>
         (case wallet_type_of toS of
            None \<Rightarrow> (Status 400 ''Invalid wallet type'', d)
          | Some tty \<Rightarrow>
             if fromS = toS then (Status 400 ''Cannot transfer to the same wallet'', d)
             else (case Wallet_findOne d uid fty of
               None \<Rightarrow> (Status 404 ''Source wallet not found'', d)
             | Some i \<Rightarrow>
                (case Wallet_findOne d uid tty of
                   None \<Rightarrow> (Status 404 ''Destination wallet not found'', d)
                 | Some j \<Rightarrow>
                    (let fromWallet = wallets d ! i; toWallet = wallets d ! j in
                     if \<not> hasSufficientBalance fromWallet amt
                     then (Status 400 ''Insufficient balance'', d)
                     else (case addTransaction_save sv d i fromWallet
                                 (mk_tx Withdrawal amt ref None (Some uid) ''internal'') of
                       None \<Rightarrow> (Status 500 ''Server error'', d)
                     | Some d1 \<Rightarrow>
                        (case addTransaction_save sv d1 j toWallet
                                 (mk_tx Deposit amt ref None (Some uid) ''internal'') of
                           None \<Rightarrow> (Status 500 ''Server error'', d1)
                         | Some d2 \<Rightarrow> (Json, d2)))))))))"

section \<open>Order routes (routes/order.routes.js)\<close>

text \<open>A line of the request. The validator \<open>isInt({min: 1})\<close> admits the decimal numerals
  of the integers from 1 on; \<open>quantity_value\<close> is the Number the route computes with.\<close>

record order_request_item =
  req_product :: object_id
  req_quantity :: int

definition quantity_value :: "order_request_item \<Rightarrow> number" where
  "quantity_value item = round64 (of_int (req_quantity item))"

text \<open>The first loop of \<open>POST /orders\<close>: each requested product is looked up and checked,
  the order items and the product total are accumulated.\<close>

fun collect_items ::
  "(object_id \<rightharpoonup> product) \<Rightarrow> order_request_item list \<Rightarrow> order_item list \<Rightarrow> number
     \<Rightarrow> response + (order_item list \<times> number)" where
  "collect_items ps [] orderItems productTotal = Inr (orderItems, productTotal)"
| "collect_items ps (item # rest) orderItems productTotal =
     (case ps (req_product item) of
        None \<Rightarrow> Inl (Status 404 ''Product not found'')
      | Some p \<Rightarrow>
          if \<not> isAvailable p then Inl (Status 400 ''Product is not available'')
          else if num_lt (product_stock p) (quantity_value item)
          then Inl (Status 400 ''Insufficient stock'')
          else (let sub = num_mul (product_price p) (quantity_value item) in
                collect_items ps rest
                  (orderItems @ [\<lparr>item_product = req_product item,
                                  quantity = quantity_value item,
                                  item_price = product_price p, subtotal = sub\<rparr>])
                  (num_add productTotal sub)))"

text \<open>The last loop of \<open>POST /orders\<close>: \<open>(False, d)\<close> is an exception thrown with the store
  as the earlier iterations left it.\<close>

fun reduce_stocks :: "storage \<Rightarrow> db \<Rightarrow> order_item list \<Rightarrow> bool \<times> db" where
  "reduce_stocks sv d [] = (True, d)"
| "reduce_stocks sv d (item # rest) =
     (case products d (item_product item) of
        None \<Rightarrow> (False, d)
      | Some p \<Rightarrow>
          (case reduceStock p (quantity item) of
             None \<Rightarrow> (False, d)
           | Some p1 \<Rightarrow>
               if product_save_ok sv d (item_product item) p1
               then reduce_stocks sv (d\<lparr>products := (products d)(item_product item \<mapsto> p1)\<rparr>) rest
               else (False, d)))"

text \<open>The wallet payment of \<open>POST /orders\<close>, after the order has been saved.\<close>

definition pay_order ::
  "storage \<Rightarrow> db \<Rightarrow> object_id \<Rightarrow> object_id \<Rightarrow> string \<Rightarrow> number \<Rightarrow> order \<Rightarrow> response \<times> db" where
  "pay_order sv d uid oid ref tot ord =
     (case Wallet_findOne d uid BuyerWallet of
        None \<Rightarrow> (Status 500 ''Server error'', d)
      | Some i \<Rightarrow>
          (case addTransaction_save sv d i (wallets d ! i)
                  (mk_tx Payment tot ref (Some oid) None ''wallet'') of
             None \<Rightarrow> (Status 500 ''Server error'', d)
           | Some d1 \<Rightarrow>
               (case Order_save sv d1 oid False
                       (ord\<lparr>paymentStatus := Paid, status := Processing\<rparr>) of
                  None \<Rightarrow> (Status 500 ''Server error'', d1)
                | Some (o2, d2) \<Rightarrow>
                    (case reduce_stocks sv d2 (items ord) of
                       (False, d3) \<Rightarrow> (Status 500 ''Server error'', d3)
                     | (True, d3) \<Rightarrow> (Json, d3)))))"

text \<open>The balance check of \<open>POST /orders\<close>, made before the order is constructed: the
  response that rejects the request, if any.\<close>

definition check_buyer_balance ::
  "db \<Rightarrow> object_id \<Rightarrow> string \<Rightarrow> number \<Rightarrow> response option" where
  "check_buyer_balance d uid pm tot =
     (if pm = ''wallet''
      then (case Wallet_findOne d uid BuyerWallet of
              None \<Rightarrow> Some (Status 404 ''Buyer wallet not found'')
            | Some i \<Rightarrow>
                if \<not> hasSufficientBalance (wallets d ! i) tot
                then Some (Status 400 ''Insufficient balance'')
                else None)
      else None)"

text \<open>The document \<open>new Order({...})\<close> of \<open>POST /orders\<close>.\<close>

definition new_order :: "object_id \<Rightarrow> order_item list \<Rightarrow> number \<Rightarrow> string \<Rightarrow> order" where
  "new_order uid orderItems tot pm =
     \<lparr>buyer = uid, items = orderItems, totalAmount = tot,
      platformFee = Fin 1200, deliveryFee = Fin 1000, adminFee = Fin 200,
      status = Pending, paymentStatus = PayPending,
      paymentMethod = pm, deliveryAgent = None,
      deliveryStatus = DeliveryPending\<rparr>"

text \<open>\<open>POST /orders\<close>. \<open>oid\<close> is the ObjectId given to the new order, \<open>ref\<close> the random
  reference, \<open>shippingAddress\<close> is only tested for presence.\<close>

definition create_order ::
  "storage \<Rightarrow> db \<Rightarrow> object_id \<Rightarrow> string list \<Rightarrow> object_id \<Rightarrow> string
     \<Rightarrow> order_request_item list \<Rightarrow> string \<Rightarrow> string \<Rightarrow> response \<times> db" where
  "create_order sv d uid user_roles oid ref req_items shippingAddress pm =
     (if \<not> checkRole [''buyer''] user_roles then (Status 403 ''Access denied'', d)
      else if req_items = [] \<or> list_ex (\<lambda>item. req_quantity item < 1) req_items
              \<or> shippingAddress = [] \<or> pm = []
      then (Status 400 ''validation'', d)
      else (case collect_items (products d) req_items [] (Fin 0) of
        Inl r \<Rightarrow> (r, d)
      | Inr (orderItems, productTotal) \<Rightarrow>
         (let tot = num_add productTotal (Fin 1200) in
          case check_buyer_balance d uid pm tot of
            Some r \<Rightarrow> (r, d)
          | None \<Rightarrow>
             (case Order_save sv d oid True (new_order uid orderItems tot pm) of
                None \<Rightarrow> (Status 500 ''Server error'', d)
              | Some (ord, d1) \<Rightarrow>
                  if pm = ''wallet'' then pay_order sv d1 uid oid ref tot ord
                  else (Json, d1)))))"

text \<open>\<open>distributePayment\<close>. Step 1 groups the items by the seller of their product in a
  JavaScript object, whose keys are iterated in insertion order: an association list.\<close>

fun group_add ::
  "object_id \<Rightarrow> order_item \<Rightarrow> (object_id \<times> order_item list) list
     \<Rightarrow> (object_id \<times> order_item list) list" where
  "group_add sellerId item [] = [(sellerId, [item])]"
| "group_add sellerId item ((k, v) # kvs) =
     (if k = sellerId then (k, v @ [item]) # kvs else (k, v) # group_add sellerId item kvs)"

fun group_by_seller ::
  "(object_id \<rightharpoonup> product) \<Rightarrow> order_item list \<Rightarrow> (object_id \<times> order_item list) list
     \<Rightarrow> (object_id \<times> order_item list) list" where
  "group_by_seller ps [] sellerItems = sellerItems"
| "group_by_seller ps (item # rest) sellerItems =
     (case ps (item_product item) of
        None \<Rightarrow> group_by_seller ps rest sellerItems
      | Some p \<Rightarrow> group_by_seller ps rest (group_add (product_seller p) item sellerItems))"

text \<open>Step 2, the loop over the sellers. \<open>rnd\<close> is the stream of random references and
  \<open>n\<close> the number of references drawn so far; \<open>Inr\<close> is a thrown exception, with the
  store it leaves.\<close>

fun pay_sellers ::
  "storage \<Rightarrow> (nat \<Rightarrow> string) \<Rightarrow> object_id \<Rightarrow> db \<Rightarrow> nat
     \<Rightarrow> (object_id \<times> order_item list) list \<Rightarrow> (db \<times> nat) + db" where
  "pay_sellers sv rnd oid d n [] = Inl (d, n)"
| "pay_sellers sv rnd oid d n ((sellerId, its) # rest) =
     (let sellerTotal = foldl (\<lambda>acc item. num_add acc (subtotal item)) (Fin 0) its in
      case Wallet_findOne d sellerId SellerWallet of
        None \<Rightarrow> pay_sellers sv rnd oid d n rest
      | Some i \<Rightarrow>
          (case addTransaction_save sv d i (wallets d ! i)
                  (mk_tx Deposit sellerTotal (rnd n) (Some oid) None ''internal'') of
             None \<Rightarrow> Inr d
           | Some d1 \<Rightarrow> pay_sellers sv rnd oid d1 (Suc n) rest))"

text \<open>Step 3, the delivery agent's commission.\<close>

definition pay_delivery ::
  "storage \<Rightarrow> (nat \<Rightarrow> string) \<Rightarrow> object_id \<Rightarrow> order \<Rightarrow> db \<Rightarrow> nat \<Rightarrow> (db \<times> nat) + db" where
  "pay_delivery sv rnd oid ord d n =
     (case deliveryAgent ord of
        None \<Rightarrow> Inl (d, n)
      | Some agent \<Rightarrow>
          (case Wallet_findOne d agent DeliveryWallet of
             None \<Rightarrow> Inl (d, n)
           | Some i \<Rightarrow>
               (case addTransaction_save sv d i (wallets d ! i)
                       (mk_tx Commission (deliveryFee ord) (rnd n) (Some oid) None ''internal'') of
                  None \<Rightarrow> Inr d
                | Some d1 \<Rightarrow> Inl (d1, Suc n))))"

text \<open>Step 4, the admin fee, appended as a transaction of type \<open>fee\<close> to the admin wallet
  of the first user with role admin.\<close>

definition pay_admin ::
  "storage \<Rightarrow> (nat \<Rightarrow> string) \<Rightarrow> object_id \<Rightarrow> order \<Rightarrow> db \<Rightarrow> nat \<Rightarrow> (db \<times> nat) + db" where
  "pay_admin sv rnd oid ord d n =
     (case find (\<lambda>u. ''admin'' \<in> set (roles u)) (users d) of
        None \<Rightarrow> Inl (d, n)
      | Some adminUser \<Rightarrow>
          (case Wallet_findOne d (user_id adminUser) AdminWallet of
             None \<Rightarrow> Inl (d, n)
           | Some i \<Rightarrow>
               (case addTransaction_save sv d i (wallets d ! i)
                       (mk_tx Fee (adminFee ord) (rnd n) (Some oid) None ''internal'') of
                  None \<Rightarrow> Inr d
                | Some d1 \<Rightarrow> Inl (d1, Suc n))))"

text \<open>\<open>distributePayment(order)\<close>: \<open>Inl\<close> is the order and the store after a normal return,
  \<open>Inr\<close> the store when an exception is rethrown.\<close>

definition distributePayment ::
  "storage \<Rightarrow> (nat \<Rightarrow> string) \<Rightarrow> db \<Rightarrow> object_id \<Rightarrow> order \<Rightarrow> (order \<times> db) + db" where
  "distributePayment sv rnd d oid ord =
     (case pay_sellers sv rnd oid d 0 (group_by_seller (products d) (items ord) []) of
        Inr d1 \<Rightarrow> Inr d1
      | Inl (d1, n1) \<Rightarrow>
          (case pay_delivery sv rnd oid ord d1 n1 of
             Inr d2 \<Rightarrow> Inr d2
           | Inl (d2, n2) \<Rightarrow>
               (case pay_admin sv rnd oid ord d2 n2 of
                  Inr d3 \<Rightarrow> Inr d3
                | Inl (d3, n3) \<Rightarrow>
                    (case Order_save sv d3 oid False (ord\<lparr>paymentStatus := Released\<rparr>) of
                       None \<Rightarrow> Inr d3
                     | Some (o1, d4) \<Rightarrow> Inl (o1, d4)))))"

text \<open>\<open>processRefund(order)\<close>.\<close>

definition processRefund ::
  "storage \<Rightarrow> (nat \<Rightarrow> string) \<Rightarrow> db \<Rightarrow> object_id \<Rightarrow> order \<Rightarrow> (order \<times> db) + db" where
  "processRefund sv rnd d oid ord =
     (case Wallet_findOne d (buyer ord) BuyerWallet of
        None \<Rightarrow> Inl (ord, d)
      | Some i \<Rightarrow>
          (case addTransaction_save sv d i (wallets d ! i)
                  (mk_tx Refund (totalAmount ord) (rnd 0) (Some oid) None ''internal'') of
             None \<Rightarrow> Inr d
           | Some d1 \<Rightarrow>
               (case Order_save sv d1 oid False (ord\<lparr>paymentStatus := PayRefunded\<rparr>) of
                  None \<Rightarrow> Inr d1
                | Some (o1, d2) \<Rightarrow> Inl (o1, d2))))"

text \<open>\<open>PUT /orders/:id/status\<close>. The validator admits exactly the six order statuses. The
  two tests of \<open>order.paymentStatus\<close> read the document after \<open>updateStatus\<close> has run.\<close>

definition update_order_status ::
  "storage \<Rightarrow> (nat \<Rightarrow> string) \<Rightarrow> db \<Rightarrow> string list \<Rightarrow> object_id \<Rightarrow> order_status
     \<Rightarrow> response \<times> db" where
  "update_order_status sv rnd d user_roles oid st =
     (if \<not> checkRole [''admin''] user_roles then (Status 403 ''Access denied'', d)
      else (case orders d oid of
        None \<Rightarrow> (Status 404 ''Order not found'', d)
      | Some ord \<Rightarrow>
          (case Order_save sv d oid False (updateStatus ord st) of
             None \<Rightarrow> (Status 500 ''Server error'', d)
           | Some (o1, d1) \<Rightarrow>
               (case (if st = Delivered \<and> paymentStatus o1 = Paid
                      then distributePayment sv rnd d1 oid o1 else Inl (o1, d1)) of
                  Inr d2 \<Rightarrow> (Status 500 ''Server error'', d2)
                | Inl (o2, d2) \<Rightarrow>
                    (case (if st = Cancelled \<and> paymentStatus o2 = Paid
                           then processRefund sv rnd d2 oid o2 else Inl (o2, d2)) of
                       Inr d3 \<Rightarrow> (Status 500 ''Server error'', d3)
                     | Inl (o3, d3) \<Rightarrow> (Json, d3))))))"

text \<open>\<open>PUT /orders/:id/delivery-status\<close>. The validator admits picked_up, in_transit,
  delivered and failed.\<close>

definition update_delivery_status ::
  "storage \<Rightarrow> (nat \<Rightarrow> string) \<Rightarrow> db \<Rightarrow> object_id \<Rightarrow> string list \<Rightarrow> object_id
     \<Rightarrow> delivery_status \<Rightarrow> response \<times> db" where
  "update_delivery_status sv rnd d uid user_roles oid st =
     (if \<not> checkRole [''delivery''] user_roles then (Status 403 ''Access denied'', d)
      else if st \<notin> set [PickedUp, InTransit, DeliveryDelivered, DeliveryFailed]
      then (Status 400 ''validation'', d)
      else (case orders d oid of
        None \<Rightarrow> (Status 404 ''Order not found'', d)
      | Some ord \<Rightarrow>
          if deliveryAgent ord \<noteq> Some uid then (Status 403 ''Not authorized'', d)
          else (case Order_save sv d oid False (updateDeliveryStatus ord st) of
             None \<Rightarrow> (Status 500 ''Server error'', d)
           | Some (o1, d1) \<Rightarrow>
               (case (if st = DeliveryDelivered \<and> paymentStatus o1 = Paid
                      then distributePayment sv rnd d1 oid o1 else Inl (o1, d1)) of
                  Inr d2 \<Rightarrow> (Status 500 ''Server error'', d2)
                | Inl (o2, d2) \<Rightarrow> (Json, d2)))))"

text \<open>\<open>PUT /orders/:id/assign-delivery\<close> (admin).\<close>

definition assign_delivery ::
  "storage \<Rightarrow> db \<Rightarrow> string list \<Rightarrow> object_id \<Rightarrow> object_id \<Rightarrow> response \<times> db" where
  "assign_delivery sv d user_roles oid deliveryAgentId =
     (if \<not> checkRole [''admin''] user_roles then (Status 403 ''Access denied'', d)
      else (case User_findById d deliveryAgentId of
        None \<Rightarrow> (Status 404 ''Valid delivery agent not found'', d)
      | Some agent \<Rightarrow>
          if ''delivery'' \<notin> set (roles agent)
          then (Status 404 ''Valid delivery agent not found'', d)
          else (case orders d oid of
             None \<Rightarrow> (Status 404 ''Order not found'', d)
           | Some ord \<Rightarrow>
               (case Order_save sv d oid False (assignDeliveryAgent ord deliveryAgentId) of
                  None \<Rightarrow> (Status 500 ''Server error'', d)
                | Some (o1, d1) \<Rightarrow> (Json, d1)))))"

text \<open>\<open>PUT /delivery/accept/:id\<close> (delivery agent, routes/delivery.routes.js).\<close>

definition accept_delivery ::
  "storage \<Rightarrow> db \<Rightarrow> object_id \<Rightarrow> string list \<Rightarrow> object_id \<Rightarrow> response \<times> db" where
  "accept_delivery sv d uid user_roles oid =
     (if \<not> checkRole [''delivery''] user_roles then (Status 403 ''Access denied'', d)
      else (case orders d oid of
        None \<Rightarrow> (Status 404 ''Order not found'', d)
      | Some ord \<Rightarrow>
          if status ord \<noteq> Processing \<or> deliveryStatus ord \<noteq> DeliveryPending
             \<or> deliveryAgent ord \<noteq> None
          then (Status 400 ''Order is not available for delivery'', d)
          else (case User_findById d uid of
             None \<Rightarrow> (Status 500 ''Server error'', d)
           | Some u \<Rightarrow>
               if deliveryInfo_isAvailable u \<noteq> Some True
               then (Status 400 ''Delivery agent is not available'', d)
               else (case Order_save sv d oid False (assignDeliveryAgent ord uid) of
                  None \<Rightarrow> (Status 500 ''Server error'', d)
                | Some (o1, d1) \<Rightarrow> (Json, d1)))))"

section \<open>Subscription routes (routes/subscription.routes.js)\<close>

text \<open>
  The wallet payment that the three subscription routes share word for word: the seller
  wallet is looked up, its balance is checked, the payment transaction is appended.
  \<open>Inl\<close> is the response that ends the request, with the store unchanged.
\<close>

definition charge_seller_wallet ::
  "storage \<Rightarrow> db \<Rightarrow> object_id \<Rightarrow> number \<Rightarrow> string \<Rightarrow> response + db" where
  "charge_seller_wallet sv d uid amt ref =
     (case Wallet_findOne d uid SellerWallet of
        None \<Rightarrow> Inl (Status 404 ''Seller wallet not found'')
      | Some i \<Rightarrow>
          if \<not> hasSufficientBalance (wallets d ! i) amt
          then Inl (Status 400 ''Insufficient balance'')
          else (case addTransaction_save sv d i (wallets d ! i)
                       (mk_tx Payment amt ref None None ''wallet'') of
                  None \<Rightarrow> Inl (Status 500 ''Server error'')
                | Some d1 \<Rightarrow> Inr d1))"

text \<open>The copy of the subscription that the routes write into \<open>user.sellerInfo\<close>.\<close>

definition set_sellerInfo :: "user \<Rightarrow> string \<Rightarrow> string \<Rightarrow> int subscription \<Rightarrow> user" where
  "set_sellerInfo u st ty s =
     u\<lparr>sellerInfo := \<lparr>subscriptionStatus = st, subscriptionType = ty,
                       subscriptionStartDate = Some (startDate s),
                       subscriptionEndDate = endDate s\<rparr>\<rparr>"

text \<open>The last \<open>subscription.save()\<close> of a route.\<close>

definition finish_subscription ::
  "storage \<Rightarrow> db \<Rightarrow> int \<Rightarrow> nat option \<Rightarrow> bool \<Rightarrow> int subscription \<Rightarrow> response \<times> db" where
  "finish_subscription sv d now pos recompute s =
     (case Subscription_save sv d now pos recompute s of
        None \<Rightarrow> (Status 500 ''Server error'', d)
      | Some (s1, d1, k) \<Rightarrow> (Json, d1))"

text \<open>The end of \<open>PUT /subscription/renew\<close> and \<open>PUT /subscription/change-plan\<close> after the
  subscription \<open>s\<close> has been saved: the user is read, and saved with the copy.\<close>

definition update_seller ::
  "storage \<Rightarrow> db \<Rightarrow> object_id \<Rightarrow> string \<Rightarrow> int subscription \<Rightarrow> response \<times> db" where
  "update_seller sv d uid ty s =
     (case User_findIndex d uid of
        None \<Rightarrow> (Status 500 ''Server error'', d)
      | Some ku \<Rightarrow>
          (case User_save sv d ku (set_sellerInfo (users d ! ku) ''active'' ty s) of
             None \<Rightarrow> (Status 500 ''Server error'', d)
           | Some d1 \<Rightarrow> (Json, d1)))"

text \<open>\<open>POST /subscription\<close>. The validator admits the four plans. The user is read at the
  start and saved before the last \<open>subscription.save()\<close>.\<close>

definition subscription_create ::
  "storage \<Rightarrow> db \<Rightarrow> int \<Rightarrow> object_id \<Rightarrow> string list \<Rightarrow> string \<Rightarrow> plan \<Rightarrow> string \<Rightarrow> bool
     \<Rightarrow> response \<times> db" where
  "subscription_create sv d now uid user_roles ref pl pm autoR =
     (if \<not> checkRole [''seller''] user_roles then (Status 403 ''Access denied'', d)
      else if pm = [] then (Status 400 ''validation'', d)
      else (case User_findIndex d uid of
        None \<Rightarrow> (Status 500 ''Server error'', d)
      | Some ku \<Rightarrow>
          (let u = users d ! ku in
           if ''seller'' \<notin> set (roles u) then (Status 403 ''User is not a seller'', d)
           else
            (let pos = Subscription_findOne d uid;
                 (sub, recompute) =
                   (case pos of
                      None \<Rightarrow>
                        (\<lparr>seller = uid, plan = pl, sub_status = Active, startDate = now,
                          endDate = None, autoRenew = autoR, price = Fin 0,
                          sub_paymentMethod = pm, paymentDetails = None,
                          renewalHistory = []\<rparr>, True)
                    | Some k \<Rightarrow>
                        (let s = subscriptions d ! k in
                         (s\<lparr>plan := pl, autoRenew := autoR, sub_paymentMethod := pm\<rparr>,
                          plan s \<noteq> pl)))
             in if pl \<noteq> FreeTrial
                then (case Subscription_save sv d now pos recompute sub of
                   None \<Rightarrow> (Status 500 ''Server error'', d)
                 | Some (sub1, d1, k) \<Rightarrow>
                     if pm = ''wallet''
                     then (case charge_seller_wallet sv d1 uid (price sub1) ref of
                        Inl r \<Rightarrow> (r, d1)
                      | Inr d2 \<Rightarrow>
                          (let sub2 = sub1\<lparr>paymentDetails :=
                                  Some \<lparr>transactionId = Some ref, paymentDate = Some now,
                                        provider = Some ''wallet''\<rparr>\<rparr> in
                           case User_save sv d2 ku
                                  (set_sellerInfo u ''active'' (plan_name pl) sub2) of
                             None \<Rightarrow> (Status 500 ''Server error'', d2)
                           | Some d3 \<Rightarrow> finish_subscription sv d3 now (Some k) False sub2))
                     else finish_subscription sv d1 now (Some k) False
                            (sub1\<lparr>sub_status := SubPending\<rparr>))
                else (case User_save sv d ku (set_sellerInfo u ''trial'' ''free_trial'' sub) of
                   None \<Rightarrow> (Status 500 ''Server error'', d)
                 | Some d1 \<Rightarrow> finish_subscription sv d1 now pos recompute sub)))))"

text \<open>\<open>PUT /subscription/renew\<close>. \<open>renew\<close> ends with its own \<open>save()\<close>; the user is read
  after it.\<close>

definition subscription_renew ::
  "storage \<Rightarrow> db \<Rightarrow> int \<Rightarrow> object_id \<Rightarrow> string list \<Rightarrow> string \<Rightarrow> string \<Rightarrow> response \<times> db" where
  "subscription_renew sv d now uid user_roles ref pm =
     (if \<not> checkRole [''seller''] user_roles then (Status 403 ''Access denied'', d)
      else if pm = [] then (Status 400 ''validation'', d)
      else (case Subscription_findOne d uid of
        None \<Rightarrow> (Status 404 ''Subscription not found'', d)
      | Some k \<Rightarrow>
          (let sub = subscriptions d ! k in
           if pm = ''wallet''
           then (case charge_seller_wallet sv d uid (price sub) ref of
              Inl r \<Rightarrow> (r, d)
            | Inr d1 \<Rightarrow>
                (case Subscription_save sv d1 now (Some k) False
                        (renew now (Some \<lparr>rp_paymentMethod = pm, rp_transactionId = Some ref,
                                          rp_provider = Some ''wallet''\<rparr>) sub) of
                   None \<Rightarrow> (Status 500 ''Server error'', d1)
                 | Some (sub1, d2, k1) \<Rightarrow> update_seller sv d2 uid (plan_name (plan sub1)) sub1))
           else finish_subscription sv d now (Some k) False (sub\<lparr>sub_status := SubPending\<rparr>))))"

text \<open>\<open>PUT /subscription/change-plan\<close>. The validator admits weekly, monthly and yearly;
  the price is the one of the \<open>switch\<close> in the route.\<close>

definition plan_price :: "plan \<Rightarrow> number" where
  "plan_price pl =
     (case pl of Weekly \<Rightarrow> Fin 2000 | Monthly \<Rightarrow> Fin 7500 | Yearly \<Rightarrow> Fin 75000
      | FreeTrial \<Rightarrow> Fin 0)"

definition subscription_change_plan ::
  "storage \<Rightarrow> db \<Rightarrow> int \<Rightarrow> object_id \<Rightarrow> string list \<Rightarrow> string \<Rightarrow> plan \<Rightarrow> string
     \<Rightarrow> response \<times> db" where
  "subscription_change_plan sv d now uid user_roles ref pl pm =
     (if \<not> checkRole [''seller''] user_roles then (Status 403 ''Access denied'', d)
      else if pl = FreeTrial \<or> pm = [] then (Status 400 ''validation'', d)
      else (case Subscription_findOne d uid of
        None \<Rightarrow> (Status 404 ''Subscription not found'', d)
      | Some k \<Rightarrow>
          (let sub = subscriptions d ! k in
           if pm = ''wallet''
           then (case charge_seller_wallet sv d uid (plan_price pl) ref of
              Inl r \<Rightarrow> (r, d)
            | Inr d1 \<Rightarrow>
                (case Subscription_save sv d1 now (Some k) (plan sub \<noteq> pl)
                        (changePlan now pl
                           (Some \<lparr>rp_paymentMethod = pm, rp_transactionId = Some ref,
                                  rp_provider = Some ''wallet''\<rparr>) sub) of
                   None \<Rightarrow> (Status 500 ''Server error'', d1)
                 | Some (sub1, d2, k1) \<Rightarrow> update_seller sv d2 uid (plan_name pl) sub1))
           else finish_subscription sv d now (Some k) False (sub\<lparr>sub_status := SubPending\<rparr>))))"

section \<open>Invariants and sample data\<close>

text \<open>From store \<open>d\<close> to store \<open>d'\<close> the wallet documents stay in place and no wallet
  with a balance of at least 0 gets a balance that is not at least 0.\<close>

definition keeps_nonneg :: "db \<Rightarrow> db \<Rightarrow> bool" where
  "keeps_nonneg d d' =
     (length (wallets d') = length (wallets d)
      \<and> (\<forall>k < length (wallets d).
            nonneg (balance (wallets d ! k)) \<longrightarrow> nonneg (balance (wallets d' ! k))))"

text \<open>A whole amount: a non-negative integer, as a Number.\<close>

definition whole_amount :: "number \<Rightarrow> bool" where
  "whole_amount x = (\<exists>n::int. 0 \<le> n \<and> x = Fin (of_int n))"




text \<open>
  A store with an admin (1), a buyer (2), two sellers (3 and 4) and two delivery agents
  (5 and 6), each but the last with the wallet of the role, and an order (100) of the
  buyer: two units of seller 3's product at 2500 and one unit of seller 4's product at
  3000, paid from the wallet, in transit with agent 5.
\<close>

definition paid_order :: order where
  "paid_order =
     \<lparr>buyer = 2,
      items = [\<lparr>item_product = 10, quantity = Fin 2, item_price = Fin 2500,
                subtotal = Fin 5000\<rparr>,
               \<lparr>item_product = 11, quantity = Fin 1, item_price = Fin 3000,
                subtotal = Fin 3000\<rparr>],
      totalAmount = Fin 9200, platformFee = Fin 1200, deliveryFee = Fin 1000,
      adminFee = Fin 200,
      status = Shipped, paymentStatus = Paid, paymentMethod = ''wallet'',
      deliveryAgent = Some 5, deliveryStatus = InTransit\<rparr>"

definition mk_user :: "object_id \<Rightarrow> string list \<Rightarrow> bool option \<Rightarrow> user" where
  "mk_user uid rs av =
     \<lparr>user_id = uid, roles = rs, deliveryInfo_isAvailable = av,
      sellerInfo = default_sellerInfo\<rparr>"

definition shop :: db where
  "shop =
     \<lparr>users = [mk_user 1 [''admin''] None, mk_user 2 [''buyer''] None,
               mk_user 3 [''seller''] None, mk_user 4 [''seller''] None,
               mk_user 5 [''delivery''] (Some True), mk_user 6 [''delivery''] (Some True)],
      wallets = [new_wallet 1 AdminWallet,
                 (new_wallet 2 BuyerWallet)\<lparr>balance := Fin 800\<rparr>,
                 new_wallet 3 SellerWallet,
                 new_wallet 4 SellerWallet,
                 new_wallet 5 DeliveryWallet],
      products = [10 \<mapsto> \<lparr>product_seller = 3, product_price = Fin 2500,
                          product_stock = Fin 8, isAvailable = True\<rparr>,
                  11 \<mapsto> \<lparr>product_seller = 4, product_price = Fin 3000,
                          product_stock = Fin 4, isAvailable = True\<rparr>],
      orders = [100 \<mapsto> paid_order],
      subscriptions = []\<rparr>"

text \<open>The same store when order 100 has the given payment status.\<close>

definition shop_with :: "payment_status \<Rightarrow> db" where
  "shop_with ps = shop\<lparr>orders := [100 \<mapsto> paid_order\<lparr>paymentStatus := ps\<rparr>]\<rparr>"


text \<open>The Numbers of the decimals 0.1, 0.2 and 0.3.\<close>

definition one_tenth :: number where
  "one_tenth = round64 (1 / 10)"

definition two_tenths :: number where
  "two_tenths = round64 (2 / 10)"






text \<open>Three ledgers of completed transactions: one of whole amounts; a deposit of
  \<open>2^53\<close> followed by a deposit of 1; a deposit of 0.1, a withdrawal of 0.1 and a deposit
  of 0.2.\<close>

definition own_tx :: "transaction_type \<Rightarrow> number \<Rightarrow> string \<Rightarrow> transaction" where
  "own_tx ty a ref = mk_tx ty a ref None (Some 1) ''mobile_money''"

definition whole_ledger :: "transaction list" where
  "whole_ledger =
     [own_tx Deposit (Fin 9000) ''a1'', own_tx Payment (Fin 6200) ''b2'',
      own_tx Refund (Fin 6200) ''c3'', own_tx Withdrawal (Fin 500) ''d4'']"

definition large_ledger :: "transaction list" where
  "large_ledger =
     [own_tx Deposit (Fin 9007199254740992) ''a1'', own_tx Deposit (Fin 1) ''b2'']"

definition tenths_ledger :: "transaction list" where
  "tenths_ledger =
     [own_tx Deposit one_tenth ''a1'', own_tx Withdrawal one_tenth ''b2'',
      own_tx Deposit two_tenths ''c3'']"

text \<open>A monthly subscription whose cycle runs from 2023-12-01 to 2024-01-01 (UTC), and
  the time values of 2024-01-01 and 2024-02-01, 00:00 UTC.\<close>

definition monthly_subscription :: "int subscription" where
  "monthly_subscription =
     \<lparr>seller = 3, plan = Monthly, sub_status = Active, startDate = 1701388800000,
      endDate = Some 1704067200000, autoRenew = False, price = Fin 7500,
      sub_paymentMethod = ''wallet'', paymentDetails = None, renewalHistory = []\<rparr>"

definition t_2024_01_01 :: int where
  "t_2024_01_01 = 1704067200000"

definition t_2024_02_01 :: int where
  "t_2024_02_01 = 1706745600000"

section \<open>Rounding\<close>

text \<open>
  \<open>round64\<close> keeps the sign and is exact on the integers of magnitude at most \<open>2^53\<close>;
  \<open>ilog2\<close> is the binary exponent, so that a rounding is settled by its exponent and its
  significand (\<open>round64_normal\<close>).
\<close>

lemma pow2_pos: "0 < pow2 e"
  by (simp add: pow2_def)

lemma round_half_even_of_int: "round_half_even (of_int n) = n"
  by (simp add: round_half_even_def)

lemma round_half_even_nonneg: "0 \<le> x \<Longrightarrow> 0 \<le> round_half_even x"
  by (auto simp: round_half_even_def Let_def)

lemma round64_nonneg:
  assumes "0 \<le> q"
  shows "round64 q = PosInf \<or> (\<exists>r. 0 \<le> r \<and> round64 q = Fin r)"
proof (cases "q = 0")
  case True
  then show ?thesis by (simp add: round64_def)
next
  case False
  define u where "u = pow2 (max (ilog2 \<bar>q\<bar>) (- 1022) - 52)"
  have u: "0 < u" by (simp add: u_def pow2_pos)
  have "0 \<le> q / u" using assms u by simp
  then have "0 \<le> round_half_even (q / u)" by (rule round_half_even_nonneg)
  then have "0 \<le> of_int (round_half_even (q / u)) * u" using u by simp
  then show ?thesis
    using False assms by (auto simp: round64_def Let_def u_def)
qed

lemma round64_exact_pos:
  assumes "0 < n" and "n \<le> 2 ^ 53"
  shows "round64 (of_int n) = Fin (of_int n)"
proof -
  define e where "e = bitlen n - 1"
  have b: "2 ^ nat e \<le> n" "n < 2 ^ nat (e + 1)"
    using bitlen_bounds [OF assms(1)] by (simp_all add: e_def)
  have e0: "0 \<le> e"
    using assms(1) bitlen_nonneg [of n] bitlen_eq_zero_iff [of n] by (simp add: e_def)
  have "nat e \<le> 53"
    by (rule power_le_imp_le_exp [of "2::int"]) (use b(1) assms(2) in simp_all)
  then have e53: "e \<le> 53" by simp
  have il: "ilog2 \<bar>of_int n\<bar> = e"
    using assms(1) by (simp add: ilog2_def e_def)
  have lt: "\<bar>(of_int n :: rat)\<bar> < pow2 1024"
  proof -
    have "(of_int n :: rat) \<le> 2 ^ 53" using assms(2) by (metis of_int_le_iff of_int_numeral of_int_power)
    also have "\<dots> < 2 ^ 1024" by simp
    finally show ?thesis using assms(1) by (simp add: pow2_def)
  qed
  have ne: "(of_int n :: rat) \<noteq> 0" using assms(1) by simp
  show ?thesis
  proof (cases "e \<le> 52")
    case True
    define k where "k = nat (52 - e)"
    have u: "pow2 (e - 52) = 1 / 2 ^ k"
      using True by (auto simp: pow2_def k_def)
    have "(of_int n :: rat) / (1 / 2 ^ k) = of_int (n * 2 ^ k)" by simp
    then have r: "round_half_even (of_int n / pow2 (e - 52)) = n * 2 ^ k"
      unfolding u by (simp only: round_half_even_of_int)
    have "of_int (round_half_even (of_int n / pow2 (e - 52))) * pow2 (e - 52) = (of_int n :: rat)"
      by (subst r, subst u) simp
    then show ?thesis
      using ne lt e0 by (simp add: round64_def Let_def il max_def)
  next
    case False
    then have e: "e = 53" using e53 by simp
    have n: "n = 2 ^ 53" using b(1) assms(2) by (simp add: e)
    have u: "pow2 (e - 52) = 2" by (simp add: e pow2_def)
    have "(of_int n :: rat) / 2 = of_int (2 ^ 52)" by (simp add: n)
    then have r: "round_half_even (of_int n / pow2 (e - 52)) = 2 ^ 52"
      unfolding u by (simp only: round_half_even_of_int)
    have "of_int (round_half_even (of_int n / pow2 (e - 52))) * pow2 (e - 52) = (of_int n :: rat)"
      by (subst r, subst u) (simp add: n)
    then show ?thesis
      using ne lt e0 by (simp add: round64_def Let_def il max_def)
  qed
qed

lemma round_half_even_minus: "round_half_even (- x) = - round_half_even x"
proof (cases "x \<in> \<int>")
  case True
  then obtain n where "x = of_int n" by (auto elim: Ints_cases)
  then show ?thesis by (simp add: round_half_even_of_int flip: of_int_minus)
next
  case False
  have ne: "x \<noteq> of_int \<lfloor>x\<rfloor>"
  proof
    assume "x = of_int \<lfloor>x\<rfloor>"
    then have "x \<in> range of_int" by (rule range_eqI)
    then show False using False by (simp add: Ints_def)
  qed
  have f: "\<lfloor>- x\<rfloor> = - \<lfloor>x\<rfloor> - 1"
    using ne by (simp add: floor_minus ceiling_altdef)
  note ne
  moreover have "of_int \<lfloor>x\<rfloor> \<le> x" by simp
  ultimately have fr: "0 < x - of_int \<lfloor>x\<rfloor>" "x - of_int \<lfloor>x\<rfloor> < 1"
    by linarith+
  show ?thesis
    using fr by (auto simp: round_half_even_def Let_def f)
qed

lemma round64_exact_int:
  assumes "\<bar>n\<bar> \<le> 2 ^ 53"
  shows "round64 (of_int n) = Fin (of_int n)"
proof -
  consider "n = 0" | "0 < n" | "n < 0" by linarith
  then show ?thesis
  proof cases
    case 1
    then show ?thesis by (simp add: round64_def)
  next
    case 2
    then show ?thesis using assms by (simp add: round64_exact_pos)
  next
    case 3
    define m where "m = - n"
    have m: "0 < m" "m \<le> 2 ^ 53" using 3 assms by (simp_all add: m_def)
    have "round64 (of_int m) = Fin (of_int m)" using m by (rule round64_exact_pos)
    moreover have "round64 (- of_int m) = (case round64 (of_int m) of Fin r \<Rightarrow> Fin (- r)
         | PosInf \<Rightarrow> NegInf | NegInf \<Rightarrow> PosInf | NaN \<Rightarrow> NaN)"
      using m(1) by (auto simp: round64_def Let_def round_half_even_minus)
    ultimately show ?thesis by (simp add: m_def)
  qed
qed

lemma pow2_powi: "pow2 e = 2 powi e"
  by (simp add: pow2_def power_int_def power_inverse field_simps)

lemma pow2_nat: "0 \<le> e \<Longrightarrow> pow2 e = 2 ^ nat e"
  by (simp add: pow2_def)

lemma pow2_neg: "0 \<le> k \<Longrightarrow> pow2 (- k) = 1 / 2 ^ nat k"
  by (auto simp: pow2_def)

lemma pow2_less: "a < b \<Longrightarrow> pow2 a < pow2 b"
  unfolding pow2_powi by (rule power_int_strict_increasing) simp_all

lemma pow2_le: "a \<le> b \<Longrightarrow> pow2 a \<le> pow2 b"
  unfolding pow2_powi by (rule power_int_increasing) simp_all

lemma bitlen_floor:
  assumes "1 \<le> (x::rat)"
  shows "0 \<le> bitlen \<lfloor>x\<rfloor> - 1"
    and "2 ^ nat (bitlen \<lfloor>x\<rfloor> - 1) \<le> x"
    and "x < 2 ^ nat (bitlen \<lfloor>x\<rfloor>)"
proof -
  define n where "n = \<lfloor>x\<rfloor>"
  have n: "1 \<le> n" using assms by (simp add: n_def le_floor_iff)
  then have "1 \<le> bitlen n" by (simp add: bitlen_ge_iff_power)
  then show "0 \<le> bitlen \<lfloor>x\<rfloor> - 1" by (simp add: n_def)
  have b: "2 ^ nat (bitlen n - 1) \<le> n" "n < 2 ^ nat (bitlen n)"
    using bitlen_bounds [of n] n by simp_all
  have "(of_int (2 ^ nat (bitlen n - 1)) :: rat) \<le> of_int n"
    using b(1) by (simp only: of_int_le_iff)
  also have "\<dots> \<le> x" by (simp add: n_def)
  finally show "2 ^ nat (bitlen \<lfloor>x\<rfloor> - 1) \<le> x" by (simp add: n_def)
  have "n + 1 \<le> 2 ^ nat (bitlen n)" using b(2) by simp
  then have "(of_int (n + 1) :: rat) \<le> of_int (2 ^ nat (bitlen n))"
    by (simp only: of_int_le_iff)
  moreover have "x < of_int (n + 1)" using floor_correct [of x] by (simp add: n_def)
  ultimately show "x < 2 ^ nat (bitlen \<lfloor>x\<rfloor>)" by (simp add: n_def)
qed

lemma ilog2_bounds:
  assumes "0 < q"
  shows "pow2 (ilog2 q) \<le> q" and "q < pow2 (ilog2 q + 1)"
proof -
  have "pow2 (ilog2 q) \<le> q \<and> q < pow2 (ilog2 q + 1)"
  proof (cases "1 \<le> q")
    case True
    note b = bitlen_floor [OF True]
    have "nat (bitlen \<lfloor>q\<rfloor> - 1 + 1) = nat (bitlen \<lfloor>q\<rfloor>)" by simp
    then show ?thesis
      using True b by (simp add: ilog2_def pow2_nat)
  next
    case False
    define k where "k = bitlen \<lfloor>1 / q\<rfloor> - 1"
    have x: "1 \<le> 1 / q" using False assms by simp
    note b = bitlen_floor [OF x, folded k_def]
    have k1: "nat (bitlen \<lfloor>1 / q\<rfloor>) = Suc (nat k)" using b(1) by (simp add: k_def)
    have up: "q * 2 ^ nat k \<le> 1"
      using b(2) assms by (simp add: field_simps)
    have lo: "1 < q * 2 ^ Suc (nat k)"
      using b(3) assms unfolding k1 by (simp add: field_simps)
    show ?thesis
    proof (cases "q * 2 ^ nat k = 1")
      case True
      then have q: "q = 1 / 2 ^ nat k" by (simp add: field_simps)
      have kpos: "0 < k" using q False b(1) by (cases "k = 0") auto
      have i: "ilog2 q = - k" using False True by (simp add: ilog2_def k_def Let_def)
      have "pow2 (- k) = q" using b(1) q by (simp add: pow2_neg)
      moreover have "pow2 (- k) < pow2 (- k + 1)" by (rule pow2_less) simp
      ultimately show ?thesis by (simp add: i)
    next
      case ne: False
      have i: "ilog2 q = - (k + 1)" using False ne by (simp add: ilog2_def k_def Let_def)
      have pk: "pow2 (- (k + 1)) = 1 / 2 ^ Suc (nat k)"
        using b(1) pow2_neg [of "k + 1"] by (simp add: nat_add_distrib)
      have "1 / 2 ^ Suc (nat k) < q" using lo by (simp add: field_simps)
      then have l: "pow2 (- (k + 1)) \<le> q" unfolding pk by simp
      have "q * 2 ^ nat k < 1" using up ne by simp
      then have "q < 1 / 2 ^ nat k" by (simp add: field_simps)
      then have u: "q < pow2 (- k)" using b(1) by (simp add: pow2_neg)
      show ?thesis using l u by (simp add: i)
    qed
  qed
  then show "pow2 (ilog2 q) \<le> q" and "q < pow2 (ilog2 q + 1)" by simp_all
qed

lemma ilog2_eqI:
  assumes "pow2 e \<le> q" and "q < pow2 (e + 1)"
  shows "ilog2 q = e"
proof -
  have q: "0 < q" using assms(1) pow2_pos [of e] by simp
  note b = ilog2_bounds [OF q]
  have "pow2 (ilog2 q) < pow2 (e + 1)" using b(1) assms(2) by simp
  then have 1: "ilog2 q < e + 1"
    using pow2_le [of "e + 1" "ilog2 q"] by (cases "ilog2 q < e + 1") simp_all
  have "pow2 e < pow2 (ilog2 q + 1)" using b(2) assms(1) by simp
  then have 2: "e < ilog2 q + 1"
    using pow2_le [of "ilog2 q + 1" e] by (cases "e < ilog2 q + 1") simp_all
  show ?thesis using 1 2 by simp
qed

lemma round_half_even_eqI:
  assumes "\<bar>x - of_int m\<bar> < 1 / 2 \<or> (\<bar>x - of_int m\<bar> = 1 / 2 \<and> even m)"
  shows "round_half_even x = m"
proof -
  consider (ge) "of_int m \<le> x" "x - of_int m < 1 / 2"
    | (lt) "x < of_int m" "of_int m - x < 1 / 2"
    | (up) "x = of_int m + 1 / 2" "even m"
    | (dn) "x = of_int m - 1 / 2" "even m"
    using assms by (cases "of_int m \<le> x") (auto simp: abs_if split: if_splits)
  then show ?thesis
  proof cases
    case ge
    have "\<lfloor>x\<rfloor> = m" using ge by (simp add: floor_eq_iff)
    then show ?thesis using ge by (simp add: round_half_even_def Let_def)
  next
    case lt
    have "\<lfloor>x\<rfloor> = m - 1" using lt by (simp add: floor_eq_iff)
    then show ?thesis using lt by (simp add: round_half_even_def Let_def)
  next
    case up
    have "\<lfloor>x\<rfloor> = m" using up by (simp add: floor_eq_iff)
    then show ?thesis using up by (simp add: round_half_even_def Let_def)
  next
    case dn
    have "\<lfloor>x\<rfloor> = m - 1" using dn by (simp add: floor_eq_iff)
    then show ?thesis using dn by (simp add: round_half_even_def Let_def)
  qed
qed

lemma round64_normal:
  assumes "pow2 e \<le> \<bar>q\<bar>" and "\<bar>q\<bar> < pow2 (e + 1)" and "- 1022 \<le> e"
    and "\<bar>q / pow2 (e - 52) - of_int m\<bar> < 1 / 2
         \<or> (\<bar>q / pow2 (e - 52) - of_int m\<bar> = 1 / 2 \<and> even m)"
    and "\<bar>of_int m * pow2 (e - 52)\<bar> < pow2 1024"
  shows "round64 q = Fin (of_int m * pow2 (e - 52))"
proof -
  have "q \<noteq> 0" using assms(1) pow2_pos [of e] by auto
  moreover have "ilog2 \<bar>q\<bar> = e" using assms(1,2) by (rule ilog2_eqI)
  moreover have "round_half_even (q / pow2 (e - 52)) = m"
    using assms(4) by (rule round_half_even_eqI)
  ultimately show ?thesis
    using assms(3,5) by (simp add: round64_def Let_def max_def)
qed

lemma round64_numeral [simp]:
  "(numeral k :: int) \<le> 2 ^ 53 \<Longrightarrow> round64 (numeral k) = Fin (numeral k)"
  using round64_exact_int [of "numeral k"] by simp

lemma round64_neg_numeral [simp]:
  "(numeral k :: int) \<le> 2 ^ 53 \<Longrightarrow> round64 (- numeral k) = Fin (- numeral k)"
  using round64_exact_int [of "- numeral k"] by simp

lemma round64_zero [simp]: "round64 0 = Fin 0"
  by (simp add: round64_def)

lemma round64_one [simp]: "round64 1 = Fin 1"
  using round64_exact_int [of 1] by simp

lemma round64_of_int_add:
  "\<bar>m + n\<bar> \<le> 2 ^ 53 \<Longrightarrow> round64 (of_int m + of_int n) = Fin (of_int m + of_int n)"
  using round64_exact_int [of "m + n"] by simp

lemma round64_of_int_diff:
  "\<bar>m - n\<bar> \<le> 2 ^ 53 \<Longrightarrow> round64 (of_int m - of_int n) = Fin (of_int m - of_int n)"
  using round64_exact_int [of "m - n"] by simp

lemma round64_of_int_mult:
  "\<bar>m * n\<bar> \<le> 2 ^ 53 \<Longrightarrow> round64 (of_int m * of_int n) = Fin (of_int m * of_int n)"
  using round64_exact_int [of "m * n"] by simp

lemma num_add_whole:
  "\<bar>m + n\<bar> \<le> 2 ^ 53 \<Longrightarrow> num_add (Fin (of_int m)) (Fin (of_int n)) = Fin (of_int (m + n))"
  using round64_exact_int [of "m + n"] by simp

lemma num_sub_whole:
  "\<bar>m - n\<bar> \<le> 2 ^ 53 \<Longrightarrow> num_sub (Fin (of_int m)) (Fin (of_int n)) = Fin (of_int (m - n))"
  using round64_exact_int [of "m - n"] by (simp add: num_sub_def)


lemma nonneg_cases: "nonneg x \<longleftrightarrow> x = PosInf \<or> (\<exists>r. 0 \<le> r \<and> x = Fin r)"
  by (cases x) (simp_all add: nonneg_def)

lemma nonneg_round64: "0 \<le> q \<Longrightarrow> nonneg (round64 q)"
  using round64_nonneg [of q] by (auto simp: nonneg_cases)

lemma nonneg_add: "nonneg b \<Longrightarrow> nonneg a \<Longrightarrow> nonneg (num_add b a)"
  by (cases b; cases a) (auto simp: nonneg_def intro: nonneg_round64 [unfolded nonneg_def])

lemma num_ge_sub_nonneg:
  "num_ge b a \<Longrightarrow> num_sub b a \<noteq> NaN \<Longrightarrow> nonneg (num_sub b a)"
  by (cases b; cases a)
     (auto simp: num_sub_def nonneg_def intro: nonneg_round64 [unfolded nonneg_def])

lemma nonneg_min_amount: "nonneg min_amount"
  unfolding min_amount_def by (rule nonneg_round64) simp

lemma num_ge_nonneg: "num_ge a m \<Longrightarrow> nonneg m \<Longrightarrow> nonneg a"
  by (cases a; cases m) (auto simp: nonneg_def)

lemma num_ge_min_amount_nonneg: "num_ge a min_amount \<Longrightarrow> nonneg a"
  using num_ge_nonneg nonneg_min_amount by blast

lemma num_lt_not_ge: "num_lt x y \<Longrightarrow> \<not> num_ge x y"
  by (cases x; cases y) auto

text \<open>The Numbers that the examples below meet.\<close>

lemma one_tenth_val: "one_tenth = Fin (3602879701896397 / 36028797018963968)"
proof -
  have "round64 (1 / 10) = Fin (of_int 7205759403792794 * pow2 ((-4) - 52))"
    by (rule round64_normal) (simp_all add: pow2_def)
  then show ?thesis by (simp add: one_tenth_def pow2_def)
qed

lemma two_tenths_val: "two_tenths = Fin (3602879701896397 / 18014398509481984)"
proof -
  have "round64 (2 / 10) = Fin (of_int 7205759403792794 * pow2 ((-3) - 52))"
    by (rule round64_normal) (simp_all add: pow2_def)
  then show ?thesis by (simp add: two_tenths_def pow2_def)
qed


lemma min_amount_val: "min_amount = Fin (5764607523034235 / 576460752303423488)"
proof -
  have "round64 (1 / 100) = Fin (of_int 5764607523034235 * pow2 ((-7) - 52))"
    by (rule round64_normal) (simp_all add: pow2_def)
  then show ?thesis by (simp add: min_amount_def pow2_def)
qed

lemma large_plus_one: "round64 9007199254740993 = Fin 9007199254740992"
proof -
  have "round64 9007199254740993 = Fin (of_int 4503599627370496 * pow2 (53 - 52))"
    by (rule round64_normal) (simp_all add: pow2_def)
  then show ?thesis by (simp add: pow2_def)
qed

lemma zero_plus_one_tenth: "num_add (Fin 0) one_tenth = one_tenth"
proof -
  have "round64 (0 + 3602879701896397 / 36028797018963968) = Fin (of_int 7205759403792794 * pow2 ((-4) - 52))"
    by (rule round64_normal) (simp_all add: pow2_def)
  then show ?thesis by (simp add: one_tenth_val pow2_def)
qed

lemma zero_plus_two_tenths: "num_add (Fin 0) two_tenths = two_tenths"
proof -
  have "round64 (0 + 3602879701896397 / 18014398509481984) = Fin (of_int 7205759403792794 * pow2 ((-3) - 52))"
    by (rule round64_normal) (simp_all add: pow2_def)
  then show ?thesis by (simp add: two_tenths_val pow2_def)
qed

lemma one_tenth_plus_two_tenths: "num_add one_tenth two_tenths = Fin (1351079888211149 / 4503599627370496)"
proof -
  have "round64 (3602879701896397 / 36028797018963968 + 3602879701896397 / 18014398509481984) = Fin (of_int 5404319552844596 * pow2 ((-2) - 52))"
    by (rule round64_normal) (simp_all add: pow2_def)
  then show ?thesis by (simp add: one_tenth_val two_tenths_val pow2_def)
qed

lemma sum_minus_one_tenth: "num_sub (Fin (1351079888211149 / 4503599627370496)) one_tenth = Fin (7205759403792795 / 36028797018963968)"
proof -
  have "round64 (1351079888211149 / 4503599627370496 - 3602879701896397 / 36028797018963968) = Fin (of_int 7205759403792795 * pow2 ((-3) - 52))"
    by (rule round64_normal) (simp_all add: pow2_def)
  then show ?thesis by (simp add: one_tenth_val num_sub_def pow2_def)
qed










section \<open>Helper lemmas\<close>

lemma addTransaction_transactions:
  "transactions (addTransaction w t) = transactions w @ [t]"
  by (simp add: addTransaction_def Let_def)

lemma foldl_addTransaction_transactions:
  "transactions (foldl addTransaction w ts) = transactions w @ ts"
  by (induction ts arbitrary: w) (simp_all add: addTransaction_transactions)

lemma whole_sum:
  assumes "\<forall>x \<in> set xs. whole_amount x"
  shows "\<exists>m::int. 0 \<le> m \<and> sum_list (map rat_of xs) = of_int m"
  using assms
proof (induction xs)
  case Nil
  show ?case by (intro exI [of _ 0]) simp
next
  case (Cons x xs)
  then obtain m where m: "0 \<le> m" "sum_list (map rat_of xs) = of_int m" by auto
  from Cons.prems obtain n where n: "0 \<le> n" "x = Fin (of_int n)"
    by (auto simp: whole_amount_def)
  show ?case using m n by (intro exI [of _ "n + m"]) simp
qed

lemma whole_sum_filter:
  assumes "\<forall>x \<in> set xs. whole_amount (f x)"
  shows "sum_list (map (rat_of \<circ> f) (filter P xs)) \<le> sum_list (map (rat_of \<circ> f) xs)"
  using assms
proof (induction xs)
  case Nil
  show ?case by simp
next
  case (Cons x xs)
  from Cons.prems obtain n where n: "0 \<le> n" "f x = Fin (of_int n)"
    by (auto simp: whole_amount_def)
  show ?case using Cons n by auto
qed

lemma foldl_num_add_whole:
  assumes "\<forall>x \<in> set xs. whole_amount x" and "0 \<le> a"
    and "of_int a + sum_list (map rat_of xs) \<le> 2 ^ 53"
  shows "foldl num_add (Fin (of_int a)) xs = Fin (of_int a + sum_list (map rat_of xs))"
  using assms
proof (induction xs arbitrary: a)
  case Nil
  show ?case by simp
next
  case (Cons x xs)
  from Cons.prems(1) obtain n where n: "0 \<le> n" "x = Fin (of_int n)"
    by (auto simp: whole_amount_def)
  from Cons.prems(1) have "\<forall>y \<in> set xs. whole_amount y" by simp
  from whole_sum [OF this] obtain m where m: "0 \<le> m" "sum_list (map rat_of xs) = of_int m"
    by blast
  have "(of_int (a + n + m) :: rat) \<le> of_int (2 ^ 53)"
    using Cons.prems(3) n m by simp
  then have le: "a + n + m \<le> 2 ^ 53" by (simp only: of_int_le_iff)
  have step: "num_add (Fin (of_int a)) x = Fin (of_int (a + n))"
    unfolding n(2) by (rule num_add_whole) (use le Cons.prems(2) n(1) m(1) in simp)
  have "foldl num_add (Fin (of_int (a + n))) xs
        = Fin (of_int (a + n) + sum_list (map rat_of xs))"
    by (rule Cons.IH) (use Cons.prems n m le in simp_all)
  then show ?case using step n by simp
qed

lemma double_total_whole:
  assumes "\<forall>t \<in> set ts. whole_amount (amount t)"
    and "sum_list (map (rat_of \<circ> amount) ts) \<le> 2 ^ 53"
  shows "double_total tys ts = Fin (exact_total tys ts)"
proof -
  let ?cs = "completed_of tys ts"
  have w: "\<forall>x \<in> set (map amount ?cs). whole_amount x"
    using assms(1) by (auto simp: completed_of_def)
  have "sum_list (map (rat_of \<circ> amount) ?cs) \<le> sum_list (map (rat_of \<circ> amount) ts)"
    unfolding completed_of_def by (rule whole_sum_filter) (use assms(1) in simp)
  then have le: "of_int 0 + sum_list (map rat_of (map amount ?cs)) \<le> 2 ^ 53"
    using assms(2) by (simp add: comp_def)
  have "foldl num_add (Fin (of_int 0)) (map amount ?cs)
        = Fin (of_int 0 + sum_list (map rat_of (map amount ?cs)))"
    by (rule foldl_num_add_whole [OF w _ le]) simp
  then show ?thesis by (simp add: double_total_def exact_total_def comp_def)
qed

lemma exact_total_Cons:
  "exact_total tys (t # ts) =
     (if tx_status t = TxCompleted \<and> tx_type t \<in> set tys then rat_of (amount t) else 0)
     + exact_total tys ts"
  by (simp add: exact_total_def completed_of_def)

lemma credit_or_debit: "tx_type t \<in> set credit_types \<or> tx_type t \<in> set debit_types"
  by (cases "tx_type t") (simp_all add: credit_types_def debit_types_def)

lemma credit_not_debit: "tx_type t \<in> set credit_types \<Longrightarrow> tx_type t \<notin> set debit_types"
  by (auto simp: credit_types_def debit_types_def)

lemma foldl_addTransaction_whole:
  assumes "\<forall>t \<in> set ts. tx_status t = TxCompleted \<and> whole_amount (amount t)"
    and "balance w = Fin (of_int b)"
    and "of_int \<bar>b\<bar> + sum_list (map (rat_of \<circ> amount) ts) \<le> 2 ^ 53"
  shows "balance (foldl addTransaction w ts)
         = Fin (of_int b + exact_total credit_types ts - exact_total debit_types ts)"
  using assms
proof (induction ts arbitrary: w b)
  case Nil
  then show ?case by (simp add: exact_total_def completed_of_def)
next
  case (Cons t ts)
  from Cons.prems(1) obtain n where n: "0 \<le> n" "amount t = Fin (of_int n)"
    by (auto simp: whole_amount_def)
  have st: "tx_status t = TxCompleted" using Cons.prems(1) by simp
  have "\<forall>y \<in> set (map amount ts). whole_amount y" using Cons.prems(1) by simp
  from whole_sum [OF this] obtain m where
    m: "0 \<le> m" "sum_list (map (rat_of \<circ> amount) ts) = of_int m"
    by (auto simp: comp_def)
  have "(of_int (\<bar>b\<bar> + n + m) :: rat) \<le> of_int (2 ^ 53)"
    using Cons.prems(3) n m by (simp add: comp_def)
  then have le: "\<bar>b\<bar> + n + m \<le> 2 ^ 53" by (simp only: of_int_le_iff)
  show ?case
  proof (cases "tx_type t \<in> set credit_types")
    case True
    have bal: "balance (addTransaction w t) = Fin (of_int (b + n))"
      using True Cons.prems(2) n le m(1)
      by (simp add: addTransaction_def Let_def round64_of_int_add)
    have "\<bar>b + n\<bar> + m \<le> 2 ^ 53" using le n(1) by linarith
    then have "(of_int (\<bar>b + n\<bar> + m) :: rat) \<le> of_int (2 ^ 53)"
      by (simp only: of_int_le_iff)
    then have nx: "of_int \<bar>b + n\<bar> + sum_list (map (rat_of \<circ> amount) ts) \<le> 2 ^ 53"
      using m(2) by simp
    have "balance (foldl addTransaction (addTransaction w t) ts)
          = Fin (of_int (b + n) + exact_total credit_types ts - exact_total debit_types ts)"
      by (rule Cons.IH [OF _ bal nx]) (use Cons.prems(1) in simp)
    then show ?thesis
      using True credit_not_debit [OF True] st n by (simp add: exact_total_Cons)
  next
    case False
    then have deb: "tx_type t \<in> set debit_types" using credit_or_debit by blast
    have bal: "balance (addTransaction w t) = Fin (of_int (b - n))"
      using False deb Cons.prems(2) n le m(1)
      by (simp add: addTransaction_def Let_def num_sub_def round64_of_int_diff)
    have "\<bar>b - n\<bar> + m \<le> 2 ^ 53" using le n(1) by linarith
    then have "(of_int (\<bar>b - n\<bar> + m) :: rat) \<le> of_int (2 ^ 53)"
      by (simp only: of_int_le_iff)
    then have nx: "of_int \<bar>b - n\<bar> + sum_list (map (rat_of \<circ> amount) ts) \<le> 2 ^ 53"
      using m(2) by simp
    have "balance (foldl addTransaction (addTransaction w t) ts)
          = Fin (of_int (b - n) + exact_total credit_types ts - exact_total debit_types ts)"
      by (rule Cons.IH [OF _ bal nx]) (use Cons.prems(1) in simp)
    then show ?thesis
      using False deb st n by (simp add: exact_total_Cons)
  qed
qed

lemma exact_total_whole:
  assumes "\<forall>t \<in> set ts. whole_amount (amount t)"
    and "sum_list (map (rat_of \<circ> amount) ts) \<le> 2 ^ 53"
  shows "\<exists>m::int. 0 \<le> m \<and> m \<le> 2 ^ 53 \<and> exact_total tys ts = of_int m"
proof -
  have "\<forall>x \<in> set (map amount (completed_of tys ts)). whole_amount x"
    using assms(1) by (auto simp: completed_of_def)
  from whole_sum [OF this] obtain m where
    m: "0 \<le> m" "exact_total tys ts = of_int m"
    by (auto simp: exact_total_def comp_def)
  have "exact_total tys ts \<le> sum_list (map (rat_of \<circ> amount) ts)"
    unfolding exact_total_def completed_of_def
    by (rule whole_sum_filter) (use assms(1) in simp)
  then have "(of_int m :: rat) \<le> of_int (2 ^ 53)" using assms(2) m(2) by simp
  then have "m \<le> 2 ^ 53" by (simp only: of_int_le_iff)
  then show ?thesis using m by blast
qed

lemma whole_amount_numeral [simp]: "whole_amount (Fin (numeral k))"
  unfolding whole_amount_def by (intro exI [of _ "numeral k"]) simp

lemma findIndex_Some:
  "findIndex P xs = Some i \<Longrightarrow> i < length xs \<and> P (xs ! i)"
proof (induction xs arbitrary: i)
  case Nil
  then show ?case by simp
next
  case (Cons x xs)
  then show ?case by (cases "P x") auto
qed

lemma Wallet_findOne_Some:
  assumes "Wallet_findOne d uid ty = Some i"
  shows "i < length (wallets d)" and "owner (wallets d ! i) = uid"
    and "walletType (wallets d ! i) = ty"
  using findIndex_Some [OF assms [unfolded Wallet_findOne_def]] by simp_all

lemma wallet_type_of_distinct:
  assumes "wallet_type_of a = Some x" and "wallet_type_of b = Some y" and "a \<noteq> b"
  shows "x \<noteq> y"
  using assms by (auto simp: wallet_type_of_def split: if_splits)

lemma addTransaction_balance_debit:
  "ty \<in> set debit_types \<Longrightarrow>
   balance (addTransaction w (mk_tx ty a ref ord usr pm)) = num_sub (balance w) a"
  by (auto simp: addTransaction_def mk_tx_def Let_def credit_types_def debit_types_def)

lemma addTransaction_balance_credit:
  "ty \<in> set credit_types \<Longrightarrow>
   balance (addTransaction w (mk_tx ty a ref ord usr pm)) = num_add (balance w) a"
  by (auto simp: addTransaction_def mk_tx_def Let_def credit_types_def debit_types_def)

lemma addTransaction_save_Some:
  assumes "addTransaction_save sv d i w t = Some d1"
  shows "d1 = d\<lparr>wallets := (wallets d)[i := addTransaction w t]\<rparr>"
    and "balance (addTransaction w t) \<noteq> NaN"
    and "wallet_save_ok sv d i (addTransaction w t)"
  using assms
  by (auto simp: addTransaction_save_def wallet_save_ok_def wallet_castable_def split: if_splits)

lemma guarded_debit_nonneg:
  assumes "hasSufficientBalance w a" and "ty \<in> set debit_types"
    and "balance (addTransaction w (mk_tx ty a ref ord usr pm)) \<noteq> NaN"
  shows "nonneg (balance (addTransaction w (mk_tx ty a ref ord usr pm)))"
  using assms
  by (simp add: addTransaction_balance_debit hasSufficientBalance_def num_ge_sub_nonneg)

lemma schema_refuses_wallet_payment:
  "addTransaction_save schema d i w (mk_tx ty a ref ord usr ''wallet'') = None"
  by (simp add: addTransaction_save_def wallet_save_ok_def schema_def mk_tx_def
      tx_paymentMethods_def addTransaction_transactions)

lemma Order_save_wallets:
  "Order_save sv d oid m ord = Some (o1, d1) \<Longrightarrow> wallets d1 = wallets d"
  by (auto simp: Order_save_def Let_def split: if_splits)

lemma Subscription_save_wallets:
  "Subscription_save sv d now pos r s = Some (s1, d1, k) \<Longrightarrow> wallets d1 = wallets d"
  by (auto simp: Subscription_save_def Let_def split: if_splits option.splits)

lemma User_save_wallets: "User_save sv d k u = Some d1 \<Longrightarrow> wallets d1 = wallets d"
  by (auto simp: User_save_def split: if_splits)

lemma finish_subscription_wallets:
  "wallets (snd (finish_subscription sv d now pos r s)) = wallets d"
  by (auto simp: finish_subscription_def split: option.splits dest: Subscription_save_wallets)

lemma update_seller_wallets: "wallets (snd (update_seller sv d uid ty s)) = wallets d"
  by (auto simp: update_seller_def split: option.splits dest: User_save_wallets)

lemma reduce_stocks_wallets: "wallets (snd (reduce_stocks sv d its)) = wallets d"
  by (induction its arbitrary: d) (auto split: option.splits)

lemma check_buyer_balance_None:
  assumes "check_buyer_balance d uid ''wallet'' tot = None"
    and "Wallet_findOne d uid BuyerWallet = Some i"
  shows "hasSufficientBalance (wallets d ! i) tot"
  using assms by (auto simp: check_buyer_balance_def split: if_splits)

lemma keeps_nonneg_same: "wallets d' = wallets d \<Longrightarrow> keeps_nonneg d d'"
  by (simp add: keeps_nonneg_def)

lemma keeps_nonneg_wallets_eq:
  "keeps_nonneg d d1 \<Longrightarrow> wallets d2 = wallets d1 \<Longrightarrow> keeps_nonneg d d2"
  by (simp add: keeps_nonneg_def)

lemma save_keeps_nonneg:
  assumes "addTransaction_save sv d1 j w t = Some d2" and "keeps_nonneg d d1"
    and "j < length (wallets d) \<Longrightarrow> nonneg (balance (wallets d ! j))
           \<Longrightarrow> nonneg (balance (addTransaction w t))"
  shows "keeps_nonneg d d2"
proof -
  have d2: "wallets d2 = (wallets d1)[j := addTransaction w t]"
    using addTransaction_save_Some(1) [OF assms(1)] by simp
  have len: "length (wallets d1) = length (wallets d)"
    using assms(2) by (simp add: keeps_nonneg_def)
  have "nonneg (balance (wallets d2 ! k))"
    if "k < length (wallets d)" and "nonneg (balance (wallets d ! k))" for k
  proof (cases "k = j")
    case True
    then show ?thesis using that assms(3) len by (simp add: d2)
  next
    case False
    then show ?thesis using that assms(2) by (simp add: d2 keeps_nonneg_def)
  qed
  then show ?thesis using len by (simp add: keeps_nonneg_def d2)
qed

lemma guarded_debit_keeps_nonneg:
  assumes "addTransaction_save sv d1 i w (mk_tx ty a ref ord usr pm) = Some d2"
    and "keeps_nonneg d d1" and "hasSufficientBalance w a" and "ty \<in> set debit_types"
  shows "keeps_nonneg d d2"
  using save_keeps_nonneg [OF assms(1,2)]
    guarded_debit_nonneg [OF assms(3,4) addTransaction_save_Some(2) [OF assms(1)]]
  by simp

lemma wallet_withdraw_keeps:
  "keeps_nonneg d (snd (wallet_withdraw sv d uid amt ty pm ref))"
  by (auto simp: wallet_withdraw_def Let_def debit_types_def keeps_nonneg_same
      split: option.splits
      elim: guarded_debit_keeps_nonneg [OF _ keeps_nonneg_same [OF refl]])

lemma wallet_transfer_keeps:
  "keeps_nonneg d (snd (wallet_transfer sv d uid amt fromS toS ref))"
proof -
  have step1: "keeps_nonneg d d1"
    if "addTransaction_save sv d i (wallets d ! i)
          (mk_tx Withdrawal amt ref None (Some uid) ''internal'') = Some d1"
      and "hasSufficientBalance (wallets d ! i) amt"
    for i d1
    using guarded_debit_keeps_nonneg [OF that(1) keeps_nonneg_same [OF refl] that(2)]
    by (simp add: debit_types_def)
  have step2: "keeps_nonneg d d2"
    if "addTransaction_save sv d i (wallets d ! i)
          (mk_tx Withdrawal amt ref None (Some uid) ''internal'') = Some d1"
      and "hasSufficientBalance (wallets d ! i) amt"
      and "addTransaction_save sv d1 j (wallets d ! j)
          (mk_tx Deposit amt ref None (Some uid) ''internal'') = Some d2"
      and "num_ge amt min_amount"
    for i j d1 d2
  proof (rule save_keeps_nonneg [OF that(3) step1 [OF that(1,2)]])
    assume "nonneg (balance (wallets d ! j))"
    then show "nonneg (balance (addTransaction (wallets d ! j)
                     (mk_tx Deposit amt ref None (Some uid) ''internal'')))"
      using num_ge_min_amount_nonneg [OF that(4)]
      by (simp add: addTransaction_balance_credit credit_types_def nonneg_add)
  qed
  show ?thesis
    by (auto simp: wallet_transfer_def Let_def keeps_nonneg_same
        split: option.splits
        elim: step1 step2)
qed

lemma pay_order_keeps:
  assumes "keeps_nonneg d0 d"
    and "\<And>i. Wallet_findOne d uid BuyerWallet = Some i \<Longrightarrow> hasSufficientBalance (wallets d ! i) tot"
  shows "keeps_nonneg d0 (snd (pay_order sv d uid oid ref tot ord))"
proof (cases "Wallet_findOne d uid BuyerWallet")
  case None
  then show ?thesis using assms(1) by (simp add: pay_order_def)
next
  case (Some i)
  note suff = assms(2) [OF Some]
  show ?thesis
  proof (cases "addTransaction_save sv d i (wallets d ! i)
                  (mk_tx Payment tot ref (Some oid) None ''wallet'')")
    case None
    then show ?thesis using assms(1) Some by (simp add: pay_order_def)
  next
    case d1: (Some d1)
    have nn1: "keeps_nonneg d0 d1"
      using guarded_debit_keeps_nonneg [OF d1 assms(1) suff] by (simp add: debit_types_def)
    show ?thesis
    proof (cases "Order_save sv d1 oid False (ord\<lparr>paymentStatus := Paid, status := Processing\<rparr>)")
      case None
      then show ?thesis using Some d1 nn1 by (simp add: pay_order_def)
    next
      case (Some od)
      obtain o2 d2 where od: "od = (o2, d2)" by (cases od)
      have w2: "wallets d2 = wallets d1"
        using Some od Order_save_wallets by blast
      have "wallets (snd (reduce_stocks sv d2 (items ord))) = wallets d1"
        using reduce_stocks_wallets [of sv d2 "items ord"] w2 by simp
      then have "keeps_nonneg d0 (snd (reduce_stocks sv d2 (items ord)))"
        using nn1 keeps_nonneg_wallets_eq by blast
      then show ?thesis
        using \<open>Wallet_findOne d uid BuyerWallet = Some i\<close> d1 Some od
        by (cases "reduce_stocks sv d2 (items ord)")
           (auto simp: pay_order_def split: bool.splits)
    qed
  qed
qed

lemma create_order_keeps:
  "keeps_nonneg d (snd (create_order sv d uid rs oid ref its addr pm))"
proof -
  have pay: "keeps_nonneg d (snd (pay_order sv d1 uid oid ref tot ord))"
    if "check_buyer_balance d uid ''wallet'' tot = None"
      and "Order_save sv d oid True ord0 = Some (ord, d1)"
    for tot ord0 ord d1
  proof -
    have w: "wallets d1 = wallets d" using that(2) by (rule Order_save_wallets)
    then have f: "Wallet_findOne d1 uid BuyerWallet = Wallet_findOne d uid BuyerWallet"
      by (simp add: Wallet_findOne_def)
    have nn: "keeps_nonneg d d1" using w by (rule keeps_nonneg_same)
    show ?thesis
      by (rule pay_order_keeps [OF nn]) (use that(1) f w check_buyer_balance_None in auto)
  qed
  have other: "keeps_nonneg d d1" if "Order_save sv d oid True ord0 = Some (ord, d1)"
    for ord0 ord d1
    using Order_save_wallets [OF that] by (rule keeps_nonneg_same)
  show ?thesis
    by (auto simp: create_order_def Let_def keeps_nonneg_same
        split: sum.splits option.splits prod.splits
        intro: pay other)
qed

lemma charge_seller_wallet_keeps:
  assumes "charge_seller_wallet sv d uid amt ref = Inr d1" and "keeps_nonneg d0 d"
  shows "keeps_nonneg d0 d1"
  using assms
  by (auto simp: charge_seller_wallet_def debit_types_def split: option.splits if_splits
      elim: guarded_debit_keeps_nonneg)

lemma finish_subscription_keeps:
  "keeps_nonneg d0 d \<Longrightarrow> keeps_nonneg d0 (snd (finish_subscription sv d now pos r s))"
  using finish_subscription_wallets keeps_nonneg_wallets_eq by blast

lemma update_seller_keeps:
  "keeps_nonneg d0 d \<Longrightarrow> keeps_nonneg d0 (snd (update_seller sv d uid ty s))"
  using update_seller_wallets keeps_nonneg_wallets_eq by blast

lemma Subscription_save_keeps:
  "Subscription_save sv d now pos r s = Some (s1, d1, k) \<Longrightarrow> keeps_nonneg d0 d
   \<Longrightarrow> keeps_nonneg d0 d1"
  using Subscription_save_wallets keeps_nonneg_wallets_eq by blast

lemma User_save_keeps:
  "User_save sv d k u = Some d1 \<Longrightarrow> keeps_nonneg d0 d \<Longrightarrow> keeps_nonneg d0 d1"
  using User_save_wallets keeps_nonneg_wallets_eq by blast

lemma subscription_create_keeps:
  "keeps_nonneg d (snd (subscription_create sv d now uid rs ref pl pm ar))"
proof -
  have r: "keeps_nonneg d d" by (simp add: keeps_nonneg_same)
  show ?thesis
    using r
    by (auto simp: subscription_create_def Let_def
        split: option.splits sum.splits prod.splits
        intro!: finish_subscription_keeps
        dest: Subscription_save_keeps charge_seller_wallet_keeps User_save_keeps)
qed

lemma subscription_renew_keeps:
  "keeps_nonneg d (snd (subscription_renew sv d now uid rs ref pm))"
proof -
  have r: "keeps_nonneg d d" by (simp add: keeps_nonneg_same)
  show ?thesis
    using r
    by (auto simp: subscription_renew_def Let_def
        split: option.splits sum.splits prod.splits
        intro!: finish_subscription_keeps update_seller_keeps
        dest: Subscription_save_keeps charge_seller_wallet_keeps)
qed

lemma subscription_change_plan_keeps:
  "keeps_nonneg d (snd (subscription_change_plan sv d now uid rs ref pl pm))"
proof -
  have r: "keeps_nonneg d d" by (simp add: keeps_nonneg_same)
  show ?thesis
    using r
    by (auto simp: subscription_change_plan_def Let_def
        split: option.splits sum.splits prod.splits
        intro!: finish_subscription_keeps update_seller_keeps
        dest: Subscription_save_keeps charge_seller_wallet_keeps)
qed















lemma update_order_status_wallets:
  "wallets (snd (update_order_status sv rnd d rs oid st)) = wallets d"
  by (auto simp: update_order_status_def Order_save_def updateStatus_def pre_save_def Let_def
      split: option.splits if_splits)

lemma update_delivery_status_wallets:
  "wallets (snd (update_delivery_status sv rnd d uid rs oid st)) = wallets d"
  by (auto simp: update_delivery_status_def Order_save_def updateDeliveryStatus_def
      pre_save_def Let_def split: option.splits if_splits)

lemma accept_keeps_agent:
  assumes "orders d oid = Some ord" and "deliveryAgent ord \<noteq> None"
  shows "snd (accept_delivery sv d uid rs oid) = d"
    and "fst (accept_delivery sv d uid rs oid) \<noteq> Json"
  using assms by (auto simp: accept_delivery_def)

lemma assign_replaces_agent:
  assumes "checkRole [''admin''] rs" and "User_findById d agent = Some u"
    and "''delivery'' \<in> set (roles u)" and "orders d oid = Some ord"
    and "order_save_ok sv d oid (assignDeliveryAgent ord agent)"
  shows "assign_delivery sv d rs oid agent
         = (Json, d\<lparr>orders := (orders d)(oid \<mapsto> assignDeliveryAgent ord agent)\<rparr>)"
  using assms by (simp add: assign_delivery_def Order_save_def pre_save_def Let_def)

text \<open>
  With the unique index on the reference of a transaction no transfer succeeds: the
  deposit carries the reference of the withdrawal, which the source wallet then holds, so
  the second \<open>save()\<close> is refused, after the source wallet has been debited.
\<close>

lemma indexed_refuses_second_save:
  assumes "i < length (wallets d)" and "i \<noteq> j"
  shows "addTransaction_save indexed
           (d\<lparr>wallets := (wallets d)[i := addTransaction w (mk_tx ty a ref ord usr pm)]\<rparr>) j w'
           (mk_tx ty' a' ref ord' usr' pm') = None"
proof -
  let ?d1 = "d\<lparr>wallets := (wallets d)[i := addTransaction w (mk_tx ty a ref ord usr pm)]\<rparr>"
  let ?w' = "addTransaction w' (mk_tx ty' a' ref ord' usr' pm')"
  have "ref \<in> set (map reference (transactions (wallets ?d1 ! i)))"
    using assms(1) by (simp add: addTransaction_transactions mk_tx_def)
  moreover have "ref \<in> set (map reference (transactions ?w'))"
    by (simp add: addTransaction_transactions mk_tx_def)
  ultimately have "\<not> (i = j \<or> set (map reference (transactions (wallets ?d1 ! i)))
                            \<inter> set (map reference (transactions ?w')) = {})"
    using assms(2) by blast
  moreover have "i \<in> set [0 ..< length (wallets ?d1)]" using assms(1) by simp
  ultimately have "\<not> reference_free ?d1 j ?w'"
    unfolding reference_free_def list_all_iff by blast
  then show ?thesis
    by (simp add: addTransaction_save_def wallet_save_ok_def indexed_def)
qed

lemma indexed_transfer_fails:
  "fst (wallet_transfer indexed d uid a fromS toS ref) \<noteq> Json"
proof -
  have second: "addTransaction_save indexed d1 j (wallets d ! j)
          (mk_tx Deposit a ref None (Some uid) ''internal'') = None"
    if "wallet_type_of fromS = Some fty" and "wallet_type_of toS = Some tty"
      and "fromS \<noteq> toS"
      and "Wallet_findOne d uid fty = Some i" and "Wallet_findOne d uid tty = Some j"
      and "addTransaction_save indexed d i (wallets d ! i)
          (mk_tx Withdrawal a ref None (Some uid) ''internal'') = Some d1"
    for fty tty i j d1
  proof -
    have ty: "fty \<noteq> tty" using wallet_type_of_distinct [OF that(1,2,3)] .
    have i: "i < length (wallets d)" "walletType (wallets d ! i) = fty"
      using Wallet_findOne_Some [OF that(4)] by simp_all
    have j: "walletType (wallets d ! j) = tty"
      using Wallet_findOne_Some [OF that(5)] by simp
    have ij: "i \<noteq> j" using i(2) j ty by auto
    show ?thesis
      unfolding addTransaction_save_Some(1) [OF that(6)]
      by (rule indexed_refuses_second_save [OF i(1) ij])
  qed
  show ?thesis
    by (auto simp: wallet_transfer_def Let_def split: option.splits dest: second)
qed

text \<open>
  With the enums of \<open>userSchema\<close> a free trial cannot be created: the route copies the
  plan name \<open>free_trial\<close> into \<open>sellerInfo.subscriptionType\<close>, whose enum lacks it, so
  \<open>user.save()\<close> throws before the subscription is saved.
\<close>

lemma free_trial_is_refused:
  assumes "checkRole [''seller''] rs" and "pm \<noteq> []"
    and "User_findIndex d uid = Some ku" and "''seller'' \<in> set (roles (users d ! ku))"
  shows "subscription_create schema d now uid rs ref FreeTrial pm ar
         = (Status 500 ''Server error'', d)"
  using assms
  by (simp add: subscription_create_def User_save_def schema_def set_sellerInfo_def
      subscriptionType_enum_def Let_def split: option.splits prod.splits)

section \<open>Settlement and refund\<close>

text \<open>
  Claim C1, at the store \<open>shop\<close>, where order 100 is paid, has items of two sellers with
  subtotals 5000 and 3000 and is assigned to agent 5. Marking the order delivered,
  through the order-status route or through the delivery-status route, answers with the
  order and sets \<open>paymentStatus\<close> to released, but credits no wallet: \<open>updateStatus\<close> and
  \<open>updateDeliveryStatus\<close> have already replaced paid by released when the route tests
  \<open>order.paymentStatus === 'paid'\<close>, so \<open>distributePayment\<close> is not called. Called on the
  paid order, \<open>distributePayment\<close> credits the sellers 5000 and 3000 and the agent 1000,
  and takes 200 from the admin wallet, since its transaction has the debit type \<open>fee\<close>.
\<close>

theorem delivered_paid_order_is_not_settled:
  "update_order_status schema rnd shop [''admin''] 100 Delivered
     = (Json, shop\<lparr>orders := [100 \<mapsto> paid_order\<lparr>status := Delivered,
                                                   paymentStatus := Released\<rparr>]\<rparr>)
   \<and> update_delivery_status schema rnd shop 5 [''delivery''] 100 DeliveryDelivered
     = (Json, shop\<lparr>orders := [100 \<mapsto> paid_order\<lparr>deliveryStatus := DeliveryDelivered,
                                   status := Delivered, paymentStatus := Released\<rparr>]\<rparr>)
   \<and> map balance (wallets shop) = [Fin 0, Fin 800, Fin 0, Fin 0, Fin 0]
   \<and> (case distributePayment schema rnd shop 100 paid_order of
         Inl (ord, d) \<Rightarrow> Some (map balance (wallets d))
       | Inr d \<Rightarrow> None) = Some [Fin (- 200), Fin 800, Fin 5000, Fin 3000, Fin 1000]"
proof -
  have a: "update_order_status schema rnd shop [''admin''] 100 Delivered
     = (Json, shop\<lparr>orders := [100 \<mapsto> paid_order\<lparr>status := Delivered,
                                                   paymentStatus := Released\<rparr>]\<rparr>)"
    by (simp add: update_order_status_def checkRole_def shop_def Order_save_def
        order_save_ok_def order_castable_def schema_def
        updateStatus_def paid_order_def order_paymentMethods_def pre_save_def Let_def)
  have b: "update_delivery_status schema rnd shop 5 [''delivery''] 100 DeliveryDelivered
     = (Json, shop\<lparr>orders := [100 \<mapsto> paid_order\<lparr>deliveryStatus := DeliveryDelivered,
                                   status := Delivered, paymentStatus := Released\<rparr>]\<rparr>)"
    by (simp add: update_delivery_status_def checkRole_def shop_def Order_save_def
        order_save_ok_def order_castable_def schema_def
        updateDeliveryStatus_def paid_order_def order_paymentMethods_def pre_save_def Let_def)
  have c: "map balance (wallets shop) = [Fin 0, Fin 800, Fin 0, Fin 0, Fin 0]"
    by (simp add: shop_def new_wallet_def)
  have e: "(case distributePayment schema rnd shop 100 paid_order of
         Inl (ord, d) \<Rightarrow> Some (map balance (wallets d))
       | Inr d \<Rightarrow> None) = Some [Fin (- 200), Fin 800, Fin 5000, Fin 3000, Fin 1000]"
    by (simp add: distributePayment_def shop_def paid_order_def pay_delivery_def pay_admin_def
        mk_user_def Wallet_findOne_def addTransaction_save_def wallet_save_ok_def
        wallet_castable_def schema_def mk_tx_def tx_paymentMethods_def
        addTransaction_def credit_types_def debit_types_def new_wallet_def Order_save_def
        order_save_ok_def order_castable_def num_sub_def
        order_paymentMethods_def pre_save_def Let_def)
  show ?thesis using a b c e by simp
qed

text \<open>
  Claim C2, at the same store. Cancelling the paid order 100 through the order-status
  route sets \<open>paymentStatus\<close> to refunded and leaves every wallet as it was, the buyer's
  wallet included (balance 800, no transaction): \<open>updateStatus\<close> has replaced paid by
  refunded before the route tests \<open>order.paymentStatus === 'paid'\<close>, so \<open>processRefund\<close> is
  not called. Called on the paid order, \<open>processRefund\<close> credits the buyer 9200.
\<close>

theorem cancelled_paid_order_is_not_refunded:
  "update_order_status schema rnd shop [''admin''] 100 Cancelled
     = (Json, shop\<lparr>orders := [100 \<mapsto> paid_order\<lparr>status := Cancelled,
                                                   paymentStatus := PayRefunded\<rparr>]\<rparr>)
   \<and> wallets shop ! 1
       = \<lparr>owner = 2, walletType = BuyerWallet, balance = Fin 800, transactions = []\<rparr>
   \<and> (case processRefund schema rnd shop 100 paid_order of
         Inl (ord, d) \<Rightarrow> Some (map balance (wallets d), paymentStatus ord)
       | Inr d \<Rightarrow> None) = Some ([Fin 0, Fin 10000, Fin 0, Fin 0, Fin 0], PayRefunded)"
proof -
  have a: "update_order_status schema rnd shop [''admin''] 100 Cancelled
     = (Json, shop\<lparr>orders := [100 \<mapsto> paid_order\<lparr>status := Cancelled,
                                                   paymentStatus := PayRefunded\<rparr>]\<rparr>)"
    by (simp add: update_order_status_def checkRole_def shop_def Order_save_def
        order_save_ok_def order_castable_def schema_def
        updateStatus_def paid_order_def order_paymentMethods_def pre_save_def Let_def)
  have b: "wallets shop ! 1
      = \<lparr>owner = 2, walletType = BuyerWallet, balance = Fin 800, transactions = []\<rparr>"
    by (simp add: shop_def new_wallet_def)
  have c: "(case processRefund schema rnd shop 100 paid_order of
         Inl (ord, d) \<Rightarrow> Some (map balance (wallets d), paymentStatus ord)
       | Inr d \<Rightarrow> None) = Some ([Fin 0, Fin 10000, Fin 0, Fin 0, Fin 0], PayRefunded)"
    by (simp add: processRefund_def shop_def paid_order_def Wallet_findOne_def
        addTransaction_save_def wallet_save_ok_def wallet_castable_def
        schema_def mk_tx_def tx_paymentMethods_def addTransaction_def
        credit_types_def debit_types_def new_wallet_def Order_save_def
        order_save_ok_def order_castable_def
        order_paymentMethods_def pre_save_def Let_def)
  show ?thesis using a b c by simp
qed

section \<open>The wallet ledger\<close>

text \<open>
  Claim C3, for the amounts that JavaScript adds without rounding. A wallet is created
  with balance 0 and no transactions. After any sequence of \<open>addTransaction\<close> calls whose
  transactions all have status completed and a whole amount, the amounts adding up to at
  most \<open>2^53\<close>, the log of the wallet is that sequence and its balance is the sum of the
  amounts of the credit-type transactions (deposit, refund, commission) minus the sum of
  the amounts of the debit-type transactions (withdrawal, payment, fee): with the sums
  and the difference taken as rationals, and with them computed as JavaScript does.
\<close>

theorem wallet_balance_is_signed_sum:
  assumes "\<forall>t \<in> set ts. tx_status t = TxCompleted \<and> whole_amount (amount t)"
    and "sum_list (map (rat_of \<circ> amount) ts) \<le> 2 ^ 53"
  shows "transactions (foldl addTransaction (new_wallet uid ty) ts) = ts
       \<and> balance (foldl addTransaction (new_wallet uid ty) ts)
           = Fin (exact_total credit_types ts - exact_total debit_types ts)
       \<and> balance (foldl addTransaction (new_wallet uid ty) ts)
           = num_sub (double_total credit_types ts) (double_total debit_types ts)"
proof -
  have wh: "\<forall>t \<in> set ts. whole_amount (amount t)" using assms(1) by simp
  have log: "transactions (foldl addTransaction (new_wallet uid ty) ts) = ts"
    by (simp add: foldl_addTransaction_transactions new_wallet_def)
  have "balance (foldl addTransaction (new_wallet uid ty) ts)
        = Fin (of_int 0 + exact_total credit_types ts - exact_total debit_types ts)"
    by (rule foldl_addTransaction_whole [OF assms(1)]) (use assms(2) in \<open>simp_all add: new_wallet_def\<close>)
  then have bal: "balance (foldl addTransaction (new_wallet uid ty) ts)
        = Fin (exact_total credit_types ts - exact_total debit_types ts)"
    by simp
  from exact_total_whole [OF wh assms(2), of credit_types] obtain c where
    c: "0 \<le> c" "c \<le> 2 ^ 53" "exact_total credit_types ts = of_int c" by blast
  from exact_total_whole [OF wh assms(2), of debit_types] obtain e where
    e: "0 \<le> e" "e \<le> 2 ^ 53" "exact_total debit_types ts = of_int e" by blast
  have "num_sub (double_total credit_types ts) (double_total debit_types ts)
        = Fin (of_int (c - e))"
    unfolding double_total_whole [OF wh assms(2)] c(3) e(3)
    by (rule num_sub_whole) (use c e in simp)
  then show ?thesis using log bal c(3) e(3) by simp
qed

theorem wallet_balance_is_signed_sum_witness:
  "transactions (foldl addTransaction (new_wallet 1 BuyerWallet) whole_ledger) = whole_ledger
   \<and> balance (foldl addTransaction (new_wallet 1 BuyerWallet) whole_ledger) = Fin 8500"
proof -
  have h: "\<forall>t \<in> set whole_ledger. tx_status t = TxCompleted \<and> whole_amount (amount t)"
    by (simp add: whole_ledger_def own_tx_def mk_tx_def)
  have s: "sum_list (map (rat_of \<circ> amount) whole_ledger) \<le> 2 ^ 53"
    by (simp add: whole_ledger_def own_tx_def mk_tx_def)
  have e: "exact_total credit_types whole_ledger - exact_total debit_types whole_ledger = 8500"
    by (simp add: exact_total_def completed_of_def whole_ledger_def own_tx_def mk_tx_def
        credit_types_def debit_types_def)
  show ?thesis
    using wallet_balance_is_signed_sum [OF h s, of 1 BuyerWallet] e by simp
qed

text \<open>
  Claim C3 as stated fails, since \<open>addTransaction\<close> adds and subtracts binary64 values.
  After a deposit of \<open>2^53\<close> and a deposit of 1 the balance is \<open>2^53\<close>, while the credits
  add up to \<open>2^53 + 1\<close>. After a deposit of 0.1, a withdrawal of 0.1 and a deposit of 0.2
  the balance is 0.2, while the sum of the credits less the sum of the debits, computed
  as JavaScript does, is 0.20000000000000004.
\<close>

theorem ledger_sum_is_rounded:
  "balance (foldl addTransaction (new_wallet 1 BuyerWallet) large_ledger)
     = Fin 9007199254740992
   \<and> exact_total credit_types large_ledger - exact_total debit_types large_ledger
     = 9007199254740993
   \<and> balance (foldl addTransaction (new_wallet 1 BuyerWallet) tenths_ledger) = two_tenths
   \<and> num_sub (double_total credit_types tenths_ledger) (double_total debit_types tenths_ledger)
     \<noteq> two_tenths"
proof -
  have a: "balance (foldl addTransaction (new_wallet 1 BuyerWallet) large_ledger)
     = Fin 9007199254740992"
    by (simp add: large_ledger_def own_tx_def mk_tx_def new_wallet_def addTransaction_def
        credit_types_def debit_types_def Let_def large_plus_one)
  have b: "exact_total credit_types large_ledger - exact_total debit_types large_ledger
     = 9007199254740993"
    by (simp add: exact_total_def completed_of_def large_ledger_def own_tx_def mk_tx_def
        credit_types_def debit_types_def)
  have s: "num_sub one_tenth one_tenth = Fin 0"
    by (simp add: one_tenth_val num_sub_def)
  have c: "balance (foldl addTransaction (new_wallet 1 BuyerWallet) tenths_ledger) = two_tenths"
    by (simp add: tenths_ledger_def own_tx_def mk_tx_def new_wallet_def addTransaction_def
        credit_types_def debit_types_def Let_def zero_plus_one_tenth s zero_plus_two_tenths)
  have "num_sub (double_total credit_types tenths_ledger)
             (double_total debit_types tenths_ledger)
        = Fin (7205759403792795 / 36028797018963968)"
    by (simp add: double_total_def completed_of_def tenths_ledger_def own_tx_def mk_tx_def
        credit_types_def debit_types_def zero_plus_one_tenth
        one_tenth_plus_two_tenths sum_minus_one_tenth)
  then have d: "num_sub (double_total credit_types tenths_ledger)
             (double_total debit_types tenths_ledger) \<noteq> two_tenths"
    by (simp add: two_tenths_val)
  show ?thesis using a b c d by simp
qed

text \<open>
  Claim C4. A wallet withdrawal, a wallet transfer, an order creation, a subscription
  creation, a subscription renewal and a change of plan leave every wallet in place and
  give no wallet that has a balance of at least 0 a balance that is not at least 0,
  whatever the request and whatever the response: every debit of these routes is
  appended only after \<open>hasSufficientBalance\<close> has held for its amount on the wallet
  debited, the difference of two Numbers has the sign of the exact difference, and
  \<open>save()\<close> refuses the one difference that is NaN, of two equal infinities.
\<close>

theorem debit_routes_keep_balances_nonneg:
  "keeps_nonneg d (snd (wallet_withdraw sv d uid amt wty pm ref))
   \<and> keeps_nonneg d (snd (wallet_transfer sv d uid amt fromS toS ref))
   \<and> keeps_nonneg d (snd (create_order sv d uid rs oid ref its addr pm))
   \<and> keeps_nonneg d (snd (subscription_create sv d now uid rs ref pl pm ar))
   \<and> keeps_nonneg d (snd (subscription_renew sv d now uid rs ref pm))
   \<and> keeps_nonneg d (snd (subscription_change_plan sv d now uid rs ref pl pm))"
proof (intro conjI)
  show "keeps_nonneg d (snd (wallet_withdraw sv d uid amt wty pm ref))"
    by (rule wallet_withdraw_keeps)
  show "keeps_nonneg d (snd (wallet_transfer sv d uid amt fromS toS ref))"
    by (rule wallet_transfer_keeps)
  show "keeps_nonneg d (snd (create_order sv d uid rs oid ref its addr pm))"
    by (rule create_order_keeps)
  show "keeps_nonneg d (snd (subscription_create sv d now uid rs ref pl pm ar))"
    by (rule subscription_create_keeps)
  show "keeps_nonneg d (snd (subscription_renew sv d now uid rs ref pm))"
    by (rule subscription_renew_keeps)
  show "keeps_nonneg d (snd (subscription_change_plan sv d now uid rs ref pl pm))"
    by (rule subscription_change_plan_keeps)
qed

theorem debit_routes_keep_balances_nonneg_witness:
  "balance (wallets shop ! 1) = Fin 800
   \<and> fst (wallet_withdraw schema shop 2 (Fin 300) ''buyer'' ''mobile_money'' ''9f3a'') = Json
   \<and> balance (wallets (snd (wallet_withdraw schema shop 2 (Fin 300) ''buyer'' ''mobile_money''
           ''9f3a'')) ! 1) = Fin 500
   \<and> nonneg (balance (wallets (snd (wallet_withdraw schema shop 2 (Fin 300) ''buyer''
           ''mobile_money'' ''9f3a'')) ! 1))
   \<and> wallet_withdraw schema shop 2 (Fin 900) ''buyer'' ''mobile_money'' ''9f3a''
       = (Status 400 ''Insufficient balance'', shop)"
proof -
  have h: "balance (wallets shop ! 1) = Fin 800" "(1::nat) < length (wallets shop)"
    by (simp_all add: shop_def new_wallet_def)
  have "keeps_nonneg shop (snd (wallet_withdraw schema shop 2 (Fin 300) ''buyer''
      ''mobile_money'' ''9f3a''))"
    using debit_routes_keep_balances_nonneg [of shop schema 2 "Fin 300" "''buyer''"
        "''mobile_money''" "''9f3a''"] by blast
  then have n: "nonneg (balance (wallets (snd (wallet_withdraw schema shop 2 (Fin 300)
      ''buyer'' ''mobile_money'' ''9f3a'')) ! 1))"
    using h unfolding keeps_nonneg_def by (force simp: nonneg_def)
  have r: "fst (wallet_withdraw schema shop 2 (Fin 300) ''buyer'' ''mobile_money'' ''9f3a'')
      = Json"
    by (simp add: wallet_withdraw_def min_amount_val wallet_type_of_def Wallet_findOne_def
        shop_def new_wallet_def hasSufficientBalance_def addTransaction_save_def
        wallet_save_ok_def wallet_castable_def schema_def mk_tx_def
        tx_paymentMethods_def addTransaction_def credit_types_def debit_types_def
        num_sub_def Let_def)
  have b: "balance (wallets (snd (wallet_withdraw schema shop 2 (Fin 300) ''buyer''
      ''mobile_money'' ''9f3a'')) ! 1) = Fin 500"
    by (simp add: wallet_withdraw_def min_amount_val wallet_type_of_def Wallet_findOne_def
        shop_def new_wallet_def hasSufficientBalance_def addTransaction_save_def
        wallet_save_ok_def wallet_castable_def schema_def mk_tx_def
        tx_paymentMethods_def addTransaction_def credit_types_def debit_types_def
        num_sub_def Let_def)
  have x: "wallet_withdraw schema shop 2 (Fin 900) ''buyer'' ''mobile_money'' ''9f3a''
       = (Status 400 ''Insufficient balance'', shop)"
    by (simp add: wallet_withdraw_def min_amount_val wallet_type_of_def Wallet_findOne_def
        shop_def new_wallet_def hasSufficientBalance_def Let_def)
  show ?thesis using h n r b x by simp
qed




section \<open>Orders\<close>

text \<open>
  Claim C5, at the store \<open>shop\<close> with other payment statuses of order 100. The
  order-status route with status delivered sets \<open>paymentStatus\<close> to released from pending
  and from refunded, with status cancelled it sets refunded from pending and from
  released, and the delivery-status route with status delivered sets released from
  pending: \<open>updateStatus\<close> and \<open>updateDeliveryStatus\<close> assign \<open>paymentStatus\<close> without
  reading it.
\<close>

theorem payment_status_set_from_any_state:
  "map_option paymentStatus
     (orders (snd (update_order_status schema rnd (shop_with PayPending) [''admin''] 100
                     Delivered)) 100) = Some Released
   \<and> map_option paymentStatus
     (orders (snd (update_order_status schema rnd (shop_with PayRefunded) [''admin''] 100
                     Delivered)) 100) = Some Released
   \<and> map_option paymentStatus
     (orders (snd (update_order_status schema rnd (shop_with PayPending) [''admin''] 100
                     Cancelled)) 100) = Some PayRefunded
   \<and> map_option paymentStatus
     (orders (snd (update_order_status schema rnd (shop_with Released) [''admin''] 100
                     Cancelled)) 100) = Some PayRefunded
   \<and> map_option paymentStatus
     (orders (snd (update_delivery_status schema rnd (shop_with PayPending) 5 [''delivery'']
                     100 DeliveryDelivered)) 100) = Some Released"
  by (simp add: update_order_status_def update_delivery_status_def checkRole_def shop_with_def
      shop_def Order_save_def order_save_ok_def order_castable_def schema_def
      updateStatus_def updateDeliveryStatus_def
      paid_order_def order_paymentMethods_def pre_save_def Let_def)




text \<open>
  Claim C7. A request to create an order paid from the wallet that passes the role
  check, the validation and the product checks, from a buyer whose buyer wallet's
  balance is not at least the computed total (product total plus 1200), is answered with
  status 400, insufficient balance, and the store is left as it was: no order, no
  transaction, no change of stock.
\<close>

theorem insufficient_balance_rejects_order:
  assumes "checkRole [''buyer''] rs" and "its \<noteq> []"
    and "\<not> list_ex (\<lambda>item. req_quantity item < 1) its" and "addr \<noteq> []"
    and "collect_items (products d) its [] (Fin 0) = Inr (ois, pt)"
    and "Wallet_findOne d uid BuyerWallet = Some i"
    and "\<not> num_ge (balance (wallets d ! i)) (num_add pt (Fin 1200))"
  shows "create_order sv d uid rs oid ref its addr ''wallet''
           = (Status 400 ''Insufficient balance'', d)"
  using assms
  by (simp add: create_order_def check_buyer_balance_def hasSufficientBalance_def Let_def)

theorem insufficient_balance_rejects_order_witness:
  "balance (wallets shop ! 1) = Fin 800
   \<and> create_order schema shop 2 [''buyer''] 101 ''c4d2''
       [\<lparr>req_product = 10, req_quantity = 2\<rparr>] ''12 Rue du Port'' ''wallet''
       = (Status 400 ''Insufficient balance'', shop)"
proof -
  have r: "checkRole [''buyer''] [''buyer'']"
    by (simp add: checkRole_def)
  have v: "[\<lparr>req_product = 10, req_quantity = 2\<rparr>] \<noteq> []"
      "\<not> list_ex (\<lambda>item. req_quantity item < 1) [\<lparr>req_product = 10, req_quantity = 2\<rparr>]"
      "''12 Rue du Port'' \<noteq> []"
    by simp_all
  have c: "collect_items (products shop) [\<lparr>req_product = 10, req_quantity = 2\<rparr>] [] (Fin 0)
      = Inr ([\<lparr>item_product = 10, quantity = Fin 2, item_price = Fin 2500,
               subtotal = Fin 5000\<rparr>], Fin 5000)"
    by (simp add: shop_def quantity_value_def Let_def)
  have w: "Wallet_findOne shop 2 BuyerWallet = Some 1"
    by (simp add: Wallet_findOne_def shop_def new_wallet_def)
  have b: "balance (wallets shop ! 1) = Fin 800"
    by (simp add: shop_def new_wallet_def)
  have l: "\<not> num_ge (balance (wallets shop ! 1)) (num_add (Fin 5000) (Fin 1200))"
    using b by simp
  show ?thesis
    using insufficient_balance_rejects_order [OF r v c w l] b by simp
qed

text \<open>
  Claim C9, as the code has it. The accept route does not touch an order that has a
  delivery agent: it answers with an error and leaves the store as it was. The admin
  assign-delivery route, for an agent that exists and has the delivery role, stores the
  order with that agent and delivery status assigned, whatever agent the order had.
\<close>

theorem accept_keeps_agent_assign_replaces:
  "(orders d oid = Some ord \<and> deliveryAgent ord \<noteq> None
      \<longrightarrow> snd (accept_delivery sv d uid rs oid) = d
          \<and> fst (accept_delivery sv d uid rs oid) \<noteq> Json)
   \<and> (checkRole [''admin''] rs' \<and> User_findById d agent = Some u
        \<and> ''delivery'' \<in> set (roles u) \<and> orders d oid = Some ord
        \<and> order_save_ok sv d oid (assignDeliveryAgent ord agent)
      \<longrightarrow> assign_delivery sv d rs' oid agent
            = (Json, d\<lparr>orders := (orders d)(oid \<mapsto> assignDeliveryAgent ord agent)\<rparr>)
          \<and> deliveryAgent (assignDeliveryAgent ord agent) = Some agent)"
  using accept_keeps_agent [of d oid ord sv uid rs]
    assign_replaces_agent [of rs' d agent u oid ord sv]
  by (auto simp: assignDeliveryAgent_def)

theorem accept_keeps_agent_assign_replaces_witness:
  "orders shop 100 = Some paid_order \<and> deliveryAgent paid_order = Some 5
   \<and> accept_delivery schema shop 6 [''delivery''] 100
       = (Status 400 ''Order is not available for delivery'', shop)
   \<and> assign_delivery schema shop [''admin''] 100 6
       = (Json, shop\<lparr>orders := (orders shop)(100 \<mapsto> assignDeliveryAgent paid_order 6)\<rparr>)"
proof -
  have o: "orders shop 100 = Some paid_order" by (simp add: shop_def)
  have g: "deliveryAgent paid_order = Some 5" by (simp add: paid_order_def)
  have r: "checkRole [''admin''] [''admin'']" by (simp add: checkRole_def)
  have u: "User_findById shop 6 = Some (mk_user 6 [''delivery''] (Some True))"
    by (simp add: User_findById_def shop_def mk_user_def)
  have k: "order_save_ok schema shop 100 (assignDeliveryAgent paid_order 6)"
    by (simp add: order_save_ok_def order_castable_def schema_def assignDeliveryAgent_def
        paid_order_def order_paymentMethods_def)
  have s: "snd (accept_delivery schema shop 6 [''delivery''] 100) = shop"
    using accept_keeps_agent_assign_replaces
      [of shop 100 paid_order schema 6 "[''delivery'']"] o g by simp
  have f: "fst (accept_delivery schema shop 6 [''delivery''] 100)
      = Status 400 ''Order is not available for delivery''"
    using o g by (simp add: accept_delivery_def checkRole_def)
  have a: "assign_delivery schema shop [''admin''] 100 6
       = (Json, shop\<lparr>orders := (orders shop)(100 \<mapsto> assignDeliveryAgent paid_order 6)\<rparr>)"
    using accept_keeps_agent_assign_replaces
      [of shop 100 paid_order schema _ _ "[''admin'']" 6 "mk_user 6 [''delivery''] (Some True)"]
      o r u k by (simp add: mk_user_def)
  show ?thesis using o g s f a by (simp add: prod_eq_iff)
qed

text \<open>Claim C9 as stated fails: order 100 of \<open>shop\<close> is assigned to agent 5, and the
  admin assign-delivery route replaces agent 5 by agent 6.\<close>

theorem assigned_agent_is_replaced:
  "map_option deliveryAgent (orders shop 100) = Some (Some 5)
   \<and> fst (assign_delivery schema shop [''admin''] 100 6) = Json
   \<and> map_option deliveryAgent
       (orders (snd (assign_delivery schema shop [''admin''] 100 6)) 100) = Some (Some 6)"
  by (simp add: assign_delivery_def checkRole_def shop_def Order_save_def order_save_ok_def
      order_castable_def schema_def mk_user_def
      User_findById_def assignDeliveryAgent_def paid_order_def order_paymentMethods_def
      pre_save_def Let_def)

section \<open>Subscriptions\<close>

text \<open>
  Claim C8, for the monthly subscription renewed at 2024-01-01 00:00 UTC with the payment
  details that the renew route passes. \<open>renew\<close> archives the cycle that ends and sets
  \<open>endDate\<close> to 2024-02-01, but the \<open>startDate\<close> that it saves is 2024-02-01 as well, not
  the time of the call: \<open>this.startDate\<close> is the object \<open>currentDate\<close>, which \<open>setMonth\<close>
  then moves one month ahead. The payment date shares the object and moves with it.
\<close>

theorem renew_moves_start_date:
  "renew t_2024_01_01
     (Some \<lparr>rp_paymentMethod = ''wallet'', rp_transactionId = Some ''7b1e'',
            rp_provider = Some ''wallet''\<rparr>)
     monthly_subscription
     = monthly_subscription
         \<lparr>startDate := t_2024_02_01, endDate := Some t_2024_02_01,
          paymentDetails :=
            Some \<lparr>transactionId = Some ''7b1e'', paymentDate = Some t_2024_02_01,
                  provider = Some ''wallet''\<rparr>,
          renewalHistory :=
            [\<lparr>h_plan = Monthly, h_startDate = 1701388800000, h_endDate = Some t_2024_01_01,
              h_price = Fin 7500, h_paymentMethod = ''wallet'', h_transactionId = None,
              h_status = Active\<rparr>]\<rparr>"
  by (simp add: renew_def renew_doc_def load_subscription_def stored_subscription_def
      monthly_subscription_def t_2024_01_01_def t_2024_02_01_def new_Date_def
      current_cycle_def update_payment_def
      setMonth_def getMonth_def setMonth_value_def MonthFromTime_def DayWithinYear_def
      Day_def msPerDay_def YearFromTime_def YearFromDay_def DayFromYear_def InLeapYear_def
      DaysInYear_def monthStart_def MakeDate_def MakeDay_def DateFromTime_def
      TimeWithinDay_def Let_def upto.simps)

end
